theory Spec2Isabelle
  imports Main
begin

section \<open>JavaScript values used by the program\<close>

text \<open>
  A JavaScript string is modelled by the list of its code units, one \<open>char\<close> each.
  What the program throws is a value of \<open>js_error\<close>: \<open>Error m\<close> is an Error object
  (of any subclass) with message \<open>m\<close>, \<open>SyntaxError\<close> is what \<open>JSON.parse\<close> throws (its
  message is engine specific and no code of the repository reads it), and \<open>Thrown\<close> is
  a thrown value that has no \<open>message\<close> property.
\<close>

datatype js_error = Error string | SyntaxError | Thrown

fun message :: "js_error \<Rightarrow> string option" where
  "message (Error m) = Some m"
| "message SyntaxError = None"
| "message Thrown = None"

text \<open>\<open>a || d\<close> on an optional string: \<open>undefined\<close> and the empty string are falsy.\<close>

fun or_default :: "string option \<Rightarrow> string \<Rightarrow> string" where
  "or_default None d = d"
| "or_default (Some s) d = (if s = [] then d else s)"

text \<open>\<open>!s\<close> on a value of type \<open>string | null\<close>.\<close>

fun falsy :: "string option \<Rightarrow> bool" where
  "falsy None = True"
| "falsy (Some s) = (s = [])"

text \<open>\<open>s.includes(p)\<close>: \<open>p\<close> occurs in \<open>s\<close> as a contiguous run.\<close>

fun str_includes :: "string \<Rightarrow> string \<Rightarrow> bool" where
  "str_includes [] p = (p = [])"
| "str_includes (c # cs) p = (take (length p) (c # cs) = p \<or> str_includes cs p)"

text \<open>\<open>xs.join(sep)\<close> on an array of strings.\<close>

fun join :: "string list \<Rightarrow> string \<Rightarrow> string" where
  "join [] sep = []"
| "join [x] sep = x"
| "join (x # y # ys) sep = x @ sep @ join (y # ys) sep"

text \<open>
  \<open>base64Image.split(',')[1] || base64Image\<close>: the piece between the first and the
  second comma when there is one and it is not empty, the whole string otherwise.
\<close>

definition image_payload :: "string \<Rightarrow> string" where
  "image_payload base64Image =
     (case dropWhile (\<lambda>c. c \<noteq> CHR '','') base64Image of
        [] \<Rightarrow> base64Image
      | _ # after \<Rightarrow>
          (let second = takeWhile (\<lambda>c. c \<noteq> CHR '','') after
           in if second = [] then base64Image else second))"

section \<open>JSON values and \<open>JSON.parse\<close>\<close>

text \<open>
  The value \<open>JSON.parse\<close> returns. A number keeps its literal (the program never
  computes with one); a string value is the list of its code units as numbers, since an
  escape \<open>\uXXXX\<close> may denote any unit below 65536; an object keeps its members in the
  order of the text.
\<close>

datatype json =
    JNull
  | JBool bool
  | JNumber string
  | JString "nat list"
  | JArray "json list"
  | JObject "(nat list \<times> json) list"

definition units :: "string \<Rightarrow> nat list" where
  "units s = map of_char s"

subsection \<open>Tokens\<close>

datatype token =
  TLBrace | TRBrace | TLBracket | TRBracket | TColon | TComma | TScalar json

definition is_ws :: "char \<Rightarrow> bool" where
  "is_ws c = (c = CHR 0x09 \<or> c = CHR 0x0A \<or> c = CHR 0x0D \<or> c = CHR 0x20)"

definition is_digit :: "char \<Rightarrow> bool" where
  "is_digit c = (48 \<le> (of_char c :: nat) \<and> (of_char c :: nat) \<le> 57)"

definition hex_val :: "char \<Rightarrow> nat option" where
  "hex_val c =
     (let n = of_char c :: nat in
      if 48 \<le> n \<and> n \<le> 57 then Some (n - 48)
      else if 65 \<le> n \<and> n \<le> 70 then Some (n - 55)
      else if 97 \<le> n \<and> n \<le> 102 then Some (n - 87)
      else None)"

text \<open>The single-character escapes of a JSON string, by the unit each denotes.\<close>

definition escape_unit :: "char \<Rightarrow> nat option" where
  "escape_unit c =
     (if c = CHR 0x22 then Some 34
      else if c = CHR 0x5C then Some 92
      else if c = CHR ''/'' then Some 47
      else if c = CHR ''b'' then Some 8
      else if c = CHR ''f'' then Some 12
      else if c = CHR ''n'' then Some 10
      else if c = CHR ''r'' then Some 13
      else if c = CHR ''t'' then Some 9
      else None)"

definition hex4 :: "char \<Rightarrow> char \<Rightarrow> char \<Rightarrow> char \<Rightarrow> nat option" where
  "hex4 a b c d =
     (case (hex_val a, hex_val b, hex_val c, hex_val d) of
        (Some w, Some x, Some y, Some z) \<Rightarrow> Some (((w * 16 + x) * 16 + y) * 16 + z)
      | _ \<Rightarrow> None)"

text \<open>
  The rest of a string literal, after its opening quote: the units read so far are
  \<open>acc\<close> (latest first); the result is the string's units and the text after the closing
  quote. A raw control character, a bad escape and a missing closing quote are errors.
\<close>

fun lex_string :: "string \<Rightarrow> nat list \<Rightarrow> (nat list \<times> string) option" where
  "lex_string [] acc = None"
| "lex_string (c # cs) acc =
     (if c = CHR 0x22 then Some (rev acc, cs)
      else if c = CHR 0x5C then
        (case cs of
           [] \<Rightarrow> None
         | e # cs1 \<Rightarrow>
             (if e = CHR ''u'' then
                (case cs1 of
                   h1 # h2 # h3 # h4 # cs2 \<Rightarrow>
                     (case hex4 h1 h2 h3 h4 of
                        None \<Rightarrow> None
                      | Some u \<Rightarrow> lex_string cs2 (u # acc))
                 | _ \<Rightarrow> None)
              else
                (case escape_unit e of
                   None \<Rightarrow> None
                 | Some u \<Rightarrow> lex_string cs1 (u # acc))))
      else if (of_char c :: nat) < 32 then None
      else lex_string cs (of_char c # acc))"

text \<open>
  A number literal: an optional minus, an integer part (\<open>0\<close>, or a non-zero digit and
  more digits), an optional fraction (a dot and at least one digit) and an optional
  exponent (\<open>e\<close> or \<open>E\<close>, an optional sign, at least one digit). Each piece returns what
  it read and the text after it.
\<close>

definition lex_int :: "string \<Rightarrow> (string \<times> string) option" where
  "lex_int cs =
     (case cs of
        [] \<Rightarrow> None
      | d # r \<Rightarrow>
          (if d = CHR ''0'' then Some ([d], r)
           else if is_digit d then Some (d # takeWhile is_digit r, dropWhile is_digit r)
           else None))"

definition lex_frac :: "string \<Rightarrow> (string \<times> string) option" where
  "lex_frac cs =
     (case cs of
        [] \<Rightarrow> Some ([], cs)
      | d # r \<Rightarrow>
          (if d = CHR ''.'' then
             (if takeWhile is_digit r = [] then None
              else Some (d # takeWhile is_digit r, dropWhile is_digit r))
           else Some ([], cs)))"

definition lex_sign :: "string \<Rightarrow> string \<times> string" where
  "lex_sign cs =
     (case cs of
        [] \<Rightarrow> ([], cs)
      | s # r \<Rightarrow> (if s = CHR ''+'' \<or> s = CHR ''-'' then ([s], r) else ([], cs)))"

definition lex_exp :: "string \<Rightarrow> (string \<times> string) option" where
  "lex_exp cs =
     (case cs of
        [] \<Rightarrow> Some ([], cs)
      | e # r \<Rightarrow>
          (if e = CHR ''e'' \<or> e = CHR ''E'' then
             (let (sg, r1) = lex_sign r in
              if takeWhile is_digit r1 = [] then None
              else Some (e # sg @ takeWhile is_digit r1, dropWhile is_digit r1))
           else Some ([], cs)))"

definition lex_number :: "string \<Rightarrow> (string \<times> string) option" where
  "lex_number cs =
     (let (minus, r0) =
        (case cs of
           [] \<Rightarrow> ([], cs)
         | m # r \<Rightarrow> (if m = CHR ''-'' then ([m], r) else ([], cs)))
      in case lex_int r0 of
           None \<Rightarrow> None
         | Some (i, r1) \<Rightarrow>
             (case lex_frac r1 of
                None \<Rightarrow> None
              | Some (f, r2) \<Rightarrow>
                  (case lex_exp r2 of
                     None \<Rightarrow> None
                   | Some (e, r3) \<Rightarrow> Some (minus @ i @ f @ e, r3))))"

text \<open>The three literal names; the result is the value and the text after the name.\<close>

definition lex_literal :: "string \<Rightarrow> (json \<times> string) option" where
  "lex_literal cs =
     (if take 4 cs = ''true'' then Some (JBool True, drop 4 cs)
      else if take 5 cs = ''false'' then Some (JBool False, drop 5 cs)
      else if take 4 cs = ''null'' then Some (JNull, drop 4 cs)
      else None)"

text \<open>The tokens of a text; white space separates them and is dropped.\<close>

function lex :: "string \<Rightarrow> token list option" where
  "lex [] = Some []"
| "lex (c # cs) =
     (if is_ws c then lex cs
      else if c = CHR ''{'' then map_option ((#) TLBrace) (lex cs)
      else if c = CHR ''}'' then map_option ((#) TRBrace) (lex cs)
      else if c = CHR ''['' then map_option ((#) TLBracket) (lex cs)
      else if c = CHR '']'' then map_option ((#) TRBracket) (lex cs)
      else if c = CHR '':'' then map_option ((#) TColon) (lex cs)
      else if c = CHR '','' then map_option ((#) TComma) (lex cs)
      else if c = CHR 0x22 then
        (case lex_string cs [] of
           None \<Rightarrow> None
         | Some (s, rest) \<Rightarrow> map_option ((#) (TScalar (JString s))) (lex rest))
      else if c = CHR ''-'' \<or> is_digit c then
        (case lex_number (c # cs) of
           None \<Rightarrow> None
         | Some (n, rest) \<Rightarrow> map_option ((#) (TScalar (JNumber n))) (lex rest))
      else
        (case lex_literal (c # cs) of
           None \<Rightarrow> None
         | Some (v, rest) \<Rightarrow> map_option ((#) (TScalar v)) (lex rest)))"
  by pat_completeness auto
termination
proof (relation "measure length")
  have string_rest: "length rest \<le> length cs"
    if "lex_string cs acc = Some (s, rest)" for cs acc s rest
    using that
  proof (induction cs acc arbitrary: s rest rule: lex_string.induct)
    case (1 acc)
    then show ?case by simp
  next
    case (2 c cs acc)
    show ?case
    proof (cases "c = CHR 0x22")
      case True
      with "2.prems" show ?thesis by simp
    next
      case nq: False
      show ?thesis
      proof (cases "c = CHR 0x5C")
        case False
        with nq "2.prems" "2.IH"(3) show ?thesis
          by (auto split: if_splits simp: le_SucI)
      next
        case bs: True
        show ?thesis
        proof (cases cs)
          case Nil
          with nq bs "2.prems" show ?thesis by simp
        next
          case (Cons e cs1)
          show ?thesis
          proof (cases "e = CHR ''u''")
            case False
            with nq bs Cons "2.prems" "2.IH"(2) show ?thesis
              by (auto split: option.splits simp: le_SucI)
          next
            case True
            with nq bs Cons "2.prems" "2.IH"(1) show ?thesis
              by (auto split: option.splits list.splits simp: le_SucI)
          qed
        qed
      qed
    qed
  qed
  have int_rest: "length rest < length cs" if "lex_int cs = Some (i, rest)" for cs i rest
    using that
    by (auto simp: lex_int_def less_Suc_eq_le length_dropWhile_le
        split: list.splits if_splits)
  have frac_rest: "length rest \<le> length cs" if "lex_frac cs = Some (f, rest)" for cs f rest
    using that
    by (auto simp: lex_frac_def le_SucI length_dropWhile_le split: list.splits if_splits)
  have sign_rest: "length rest \<le> length cs" if "lex_sign cs = (sg, rest)" for cs sg rest
    using that by (auto simp: lex_sign_def split: list.splits if_splits)
  have exp_rest: "length rest \<le> length cs" if a: "lex_exp cs = Some (e, rest)" for cs e rest
  proof (cases cs)
    case Nil
    with a show ?thesis by (simp add: lex_exp_def)
  next
    case (Cons x r)
    obtain sg r1 where s: "lex_sign r = (sg, r1)" by (cases "lex_sign r")
    have "length (dropWhile is_digit r1) \<le> length r1" by (rule length_dropWhile_le)
    moreover have "length r1 \<le> length r" using s by (rule sign_rest)
    ultimately show ?thesis
      using a Cons s by (auto simp: lex_exp_def split: if_splits)
  qed
  have number_rest: "length rest < length cs" if a: "lex_number cs = Some (n, rest)" for cs n rest
  proof -
    obtain minus r0 where m:
      "(case cs of [] \<Rightarrow> ([], cs)
        | m # r \<Rightarrow> (if m = CHR ''-'' then ([m], r) else ([], cs))) = (minus, r0)"
      by (cases "case cs of [] \<Rightarrow> ([]::string, cs)
        | m # r \<Rightarrow> (if m = CHR ''-'' then ([m], r) else ([], cs))")
    have r0: "length r0 \<le> length cs"
      using m by (auto split: list.splits if_splits)
    from a m obtain i r1 f r2 e where
      i: "lex_int r0 = Some (i, r1)" and f: "lex_frac r1 = Some (f, r2)"
      and e: "lex_exp r2 = Some (e, rest)"
      by (auto simp: lex_number_def split: option.splits)
    from int_rest [OF i] frac_rest [OF f] exp_rest [OF e] r0
    show ?thesis by simp
  qed
  have literal_rest: "length rest < length (c # cs)"
    if "lex_literal (c # cs) = Some (v, rest)" for c cs v rest
    using that by (auto simp: lex_literal_def split: if_splits)
  show "wf (measure length)" by simp
  show "(rest, c # cs) \<in> measure length"
    if "lex_string cs [] = Some x2" "(s, rest) = x2" for c cs x2 s rest
    using string_rest [of cs "[]" s rest] that by simp
  show "(rest, c # cs) \<in> measure length"
    if "lex_number (c # cs) = Some x2" "(n, rest) = x2" for c cs x2 n rest
    using number_rest [of "c # cs" n rest] that by simp
  show "(rest, c # cs) \<in> measure length"
    if "lex_literal (c # cs) = Some x2" "(v, rest) = x2" for c cs x2 v rest
    using literal_rest [of c cs v rest] that by simp
qed auto

subsection \<open>The grammar\<close>

text \<open>
  The parser reads the tokens from left to right with a stack of the containers that are
  still open: \<open>FArray acc\<close> is an array with the elements \<open>acc\<close> read so far (latest
  first), \<open>FObject acc k\<close> an object with the members \<open>acc\<close> read so far and the key \<open>k\<close>
  whose value is awaited, if any. \<open>expect\<close> says what may come next.
\<close>

datatype frame =
    FArray "json list"
  | FObject "(nat list \<times> json) list" "nat list option"

datatype expect =
    EValue
  | EValueOrClose
  | EKeyOrClose
  | EKey
  | EColon
  | ECommaOrClose
  | EDone json

text \<open>A finished value goes to the innermost open container, or is the result.\<close>

fun deliver :: "json \<Rightarrow> frame list \<Rightarrow> (expect \<times> frame list) option" where
  "deliver v [] = Some (EDone v, [])"
| "deliver v (FArray acc # st) = Some (ECommaOrClose, FArray (v # acc) # st)"
| "deliver v (FObject acc (Some k) # st) =
     Some (ECommaOrClose, FObject ((k, v) # acc) None # st)"
| "deliver v (FObject acc None # st) = None"

fun start_value :: "token \<Rightarrow> frame list \<Rightarrow> (expect \<times> frame list) option" where
  "start_value (TScalar v) st = deliver v st"
| "start_value TLBracket st = Some (EValueOrClose, FArray [] # st)"
| "start_value TLBrace st = Some (EKeyOrClose, FObject [] None # st)"
| "start_value _ st = None"

fun close_array :: "frame list \<Rightarrow> (expect \<times> frame list) option" where
  "close_array (FArray acc # st) = deliver (JArray (rev acc)) st"
| "close_array _ = None"

fun close_object :: "frame list \<Rightarrow> (expect \<times> frame list) option" where
  "close_object (FObject acc None # st) = deliver (JObject (rev acc)) st"
| "close_object _ = None"

fun read_key :: "token \<Rightarrow> frame list \<Rightarrow> (expect \<times> frame list) option" where
  "read_key (TScalar (JString k)) (FObject acc None # st) =
     Some (EColon, FObject acc (Some k) # st)"
| "read_key _ _ = None"

fun after_comma :: "frame list \<Rightarrow> (expect \<times> frame list) option" where
  "after_comma (FArray acc # st) = Some (EValue, FArray acc # st)"
| "after_comma (FObject acc None # st) = Some (EKey, FObject acc None # st)"
| "after_comma _ = None"

fun parse_step :: "expect \<Rightarrow> frame list \<Rightarrow> token \<Rightarrow> (expect \<times> frame list) option" where
  "parse_step EValue st t = start_value t st"
| "parse_step EValueOrClose st t = (if t = TRBracket then close_array st else start_value t st)"
| "parse_step EKeyOrClose st t = (if t = TRBrace then close_object st else read_key t st)"
| "parse_step EKey st t = read_key t st"
| "parse_step EColon st t = (if t = TColon then Some (EValue, st) else None)"
| "parse_step ECommaOrClose st t =
     (if t = TComma then after_comma st
      else if t = TRBracket then close_array st
      else if t = TRBrace then close_object st
      else None)"
| "parse_step (EDone v) st t = None"

fun parse_tokens :: "expect \<Rightarrow> frame list \<Rightarrow> token list \<Rightarrow> json option" where
  "parse_tokens (EDone v) st [] = Some v"
| "parse_tokens e st [] = None"
| "parse_tokens e st (t # ts) =
     (case parse_step e st t of
        None \<Rightarrow> None
      | Some (e', st') \<Rightarrow> parse_tokens e' st' ts)"

text \<open>\<open>JSON.parse(text)\<close>: the value the text denotes, or a thrown SyntaxError.\<close>

definition JSON_parse :: "string \<Rightarrow> js_error + json" where
  "JSON_parse s =
     (case lex s of
        None \<Rightarrow> Inl SyntaxError
      | Some ts \<Rightarrow>
          (case parse_tokens EValue [] ts of
             None \<Rightarrow> Inl SyntaxError
           | Some v \<Rightarrow> Inr v))"

section \<open>The data model (\<open>types.ts\<close>)\<close>

record ProductAnalysis =
  productName :: string
  productType :: string
  materials :: "string list"
  primaryColors :: "string list"
  targetAudience :: string

record LoadingState =
  analyzing :: bool
  generatingImage :: bool
  writingScript :: bool
  ideatingBRoll :: bool
  generatingVideo :: bool

text \<open>
  The field \<open>originalImage\<close> of \<open>CreativeAssets\<close> is \<open>assets_originalImage\<close> here: the
  application shell has a state variable of the same name.
\<close>

record CreativeAssets =
  assets_originalImage :: "string option"
  lifestyleImage :: "string option"
  tiktokScript :: "string option"
  bRollConcepts :: "string list option"
  productVideoUrl :: "string option"





section \<open>The provider (\<open>@google/genai\<close>, \<open>fetch\<close>, the browser)\<close>

text \<open>
  The requests the services send and the responses they read, with the fields the
  services touch. A field that may be absent is an option. The property \<open>text\<close> of a
  part and of a response is \<open>part_text\<close> and \<open>response_text\<close>; \<open>done\<close> and \<open>response\<close> of
  an operation are \<open>op_done\<close> and \<open>op_response\<close>. The property \<open>text\<close> of a response is
  computed by the provider's library, which is not part of the repository: it is a
  field of the response here.
\<close>

record Blob_inline =
  mimeType :: "string option"
  data :: "string option"

record Part =
  inlineData :: "Blob_inline option"
  part_text :: "string option"

record Content =
  parts :: "Part list option"

record Candidate =
  content :: "Content option"

record GenerateContentResponse =
  candidates :: "Candidate list option"
  response_text :: "string option"

datatype schema =
    TypeString
  | TypeArray schema
  | TypeObject "(string \<times> schema) list" "string list"

record GenerateContentParameters =
  model :: string
  contents :: "Part list"
  responseMimeType :: "string option"
  responseSchema :: "schema option"
  imageConfig_aspectRatio :: "string option"

record GenerateVideosParameters =
  videos_model :: string
  prompt :: string
  imageBytes :: string
  image_mimeType :: string
  numberOfVideos :: nat
  resolution :: string
  aspectRatio :: string

record Video =
  uri :: "string option"

record GeneratedVideo =
  video :: "Video option"

record GenerateVideosResponse =
  generatedVideos :: "GeneratedVideo list option"

record GenerateVideosOperation =
  op_done :: bool
  op_response :: "GenerateVideosResponse option"

text \<open>
  What the world outside answers. Every call either throws or returns.
  \<open>getVideosOperation k\<close> is the answer to status query number \<open>k\<close> of a run (the first
  query is number 0): the provider is a black box, and the operation a query passes is
  the previous answer, so the answers of a run are a sequence. \<open>fetch\<close> returns a
  response whose \<open>blob()\<close> may throw in turn; \<open>createObjectURL\<close> is the browser's, \<open>API_KEY\<close>
  is \<open>process.env.API_KEY\<close>.
\<close>

record provider =
  generateContent :: "GenerateContentParameters \<Rightarrow> js_error + GenerateContentResponse"
  generateVideos :: "GenerateVideosParameters \<Rightarrow> js_error + GenerateVideosOperation"
  getVideosOperation :: "nat \<Rightarrow> js_error + GenerateVideosOperation"
  fetch :: "string \<Rightarrow> js_error + (js_error + string)"
  createObjectURL :: "string \<Rightarrow> string"
  API_KEY :: "string option"

text \<open>A template literal prints \<open>undefined\<close> for a missing value.\<close>

fun template :: "string option \<Rightarrow> string" where
  "template None = ''undefined''"
| "template (Some s) = s"

text \<open>\<open>xs[0]\<close> of an array of strings, \<open>undefined\<close> when the array is empty.\<close>

fun first :: "'a list \<Rightarrow> 'a option" where
  "first [] = None"
| "first (x # xs) = Some x"

definition image_part :: "string \<Rightarrow> Part" where
  "image_part base64Image =
     \<lparr>inlineData = Some \<lparr>mimeType = Some ''image/png'', data = Some (image_payload base64Image)\<rparr>,
      part_text = None\<rparr>"

definition text_part :: "string \<Rightarrow> Part" where
  "text_part t = \<lparr>inlineData = None, part_text = Some t\<rparr>"

section \<open>The services (\<open>services/geminiService.ts\<close>)\<close>

subsection \<open>\<open>analyzeProductImage\<close>\<close>




subsection \<open>\<open>generateLifestyleImage\<close>\<close>

definition lifestyle_prompt :: "ProductAnalysis \<Rightarrow> string" where
  "lifestyle_prompt analysis =
     ''Professional e-commerce lifestyle photography. Place the '' @
     productName analysis @ '' ('' @ productType analysis @
     '') prominently in a high-end, aspirational environment. '' @ [CHR 0x0A] @
     ''  Settings: Use soft cinematic lighting, depth of field, and a modern aesthetic. '' @
     [CHR 0x0A] @
     ''  The environment should complement its materials ('' @
     join (materials analysis) '', '' @ '') and colors ('' @
     join (primaryColors analysis) '', '' @ ''). '' @ [CHR 0x0A] @
     ''  Ensure the product looks sharp and integrated into the scene. '' @ [CHR 0x0A] @
     ''  NO text, NO logos, NO distorted features. High resolution.''"

definition lifestyle_request :: "string \<Rightarrow> ProductAnalysis \<Rightarrow> GenerateContentParameters" where
  "lifestyle_request base64Image analysis =
     \<lparr>model = ''gemini-2.5-flash-image'',
      contents = [image_part base64Image, text_part (lifestyle_prompt analysis)],
      responseMimeType = None,
      responseSchema = None,
      imageConfig_aspectRatio = Some ''1:1''\<rparr>"

text \<open>\<open>response.candidates?.[0]?.content?.parts || []\<close>\<close>

definition response_parts :: "GenerateContentResponse \<Rightarrow> Part list" where
  "response_parts r =
     (case candidates r of
        None \<Rightarrow> []
      | Some cs \<Rightarrow>
          (case first cs of
             None \<Rightarrow> []
           | Some c \<Rightarrow>
               (case content c of
                  None \<Rightarrow> []
                | Some ct \<Rightarrow> (case parts ct of None \<Rightarrow> [] | Some ps \<Rightarrow> ps))))"

text \<open>The loop over the parts: the first part with inline data ends it.\<close>

fun first_image :: "Part list \<Rightarrow> js_error + string" where
  "first_image [] = Inl (Error ''No image generated'')"
| "first_image (p # ps) =
     (case inlineData p of
        Some d \<Rightarrow> Inr (''data:image/png;base64,'' @ template (data d))
      | None \<Rightarrow> first_image ps)"

definition generateLifestyleImage ::
  "provider \<Rightarrow> string \<Rightarrow> ProductAnalysis \<Rightarrow> js_error + string" where
  "generateLifestyleImage ai base64Image analysis =
     (case generateContent ai (lifestyle_request base64Image analysis) of
        Inl e \<Rightarrow> Inl e
      | Inr response \<Rightarrow> first_image (response_parts response))"

subsection \<open>\<open>writeViralScript\<close> and \<open>ideateBRoll\<close>\<close>

definition script_prompt :: "ProductAnalysis \<Rightarrow> string" where
  "script_prompt analysis =
     ''You are a viral TikTok marketing expert specializing in direct-to-consumer products. '' @
     [CHR 0x0A] @
     ''  Product: '' @ productName analysis @ [CHR 0x0A] @
     ''  Audience: '' @ targetAudience analysis @ [CHR 0x0A] @
     ''  Colors/Vibe: '' @ join (primaryColors analysis) '', '' @ [CHR 0x0A] @
     ''  '' @ [CHR 0x0A] @
     ''  Write a high-energy 15-second script. '' @ [CHR 0x0A] @
     ''  Structure:'' @ [CHR 0x0A] @
     ''  1. THE HOOK (0-3s): Stop the scroll with a relatable problem or shocking statement.'' @
     [CHR 0x0A] @
     ''  2. THE VALUE (3-10s): Rapid-fire features using text-overlays. Mention the '' @
     or_default (first (materials analysis)) ''quality materials'' @ ''.'' @ [CHR 0x0A] @
     ''  3. THE CTA (10-15s): Urgency and clear instruction to buy.'' @ [CHR 0x0A] @
     ''  '' @ [CHR 0x0A] @
     ''  Use emojis, TikTok slang (e.g., '' @ [CHR 0x27] @ ''Pov'' @ [CHR 0x27] @ '', '' @
     [CHR 0x27] @ ''Game changer'' @ [CHR 0x27] @ '', '' @
     [CHR 0x27] @ ''Obsessed'' @ [CHR 0x27] @
     ''), and include [Visual Directions] in brackets.''"

definition script_request :: "ProductAnalysis \<Rightarrow> GenerateContentParameters" where
  "script_request analysis =
     \<lparr>model = ''gemini-3-pro-preview'',
      contents = [text_part (script_prompt analysis)],
      responseMimeType = None,
      responseSchema = None,
      imageConfig_aspectRatio = None\<rparr>"

definition writeViralScript :: "provider \<Rightarrow> ProductAnalysis \<Rightarrow> js_error + string" where
  "writeViralScript ai analysis =
     (case generateContent ai (script_request analysis) of
        Inl e \<Rightarrow> Inl e
      | Inr response \<Rightarrow> Inr (or_default (response_text response) ''Failed to generate script.''))"

definition broll_prompt :: "ProductAnalysis \<Rightarrow> string" where
  "broll_prompt analysis =
     ''Generate three highly descriptive 5-second B-roll scene prompts for an AI video '' @
     ''generator like Veo. '' @ [CHR 0x0A] @
     ''  Focus on the textures and details of the '' @ productName analysis @ ''. '' @
     [CHR 0x0A] @
     ''  Scene 1: Close-up macro shot of texture.'' @ [CHR 0x0A] @
     ''  Scene 2: Interaction or lifestyle movement.'' @ [CHR 0x0A] @
     ''  Scene 3: Atmospheric lighting or dynamic angle.'' @ [CHR 0x0A] @
     ''  Return as a JSON array of 3 strings.''"

definition broll_request :: "ProductAnalysis \<Rightarrow> GenerateContentParameters" where
  "broll_request analysis =
     \<lparr>model = ''gemini-3-pro-preview'',
      contents = [text_part (broll_prompt analysis)],
      responseMimeType = Some ''application/json'',
      responseSchema = Some (TypeArray TypeString),
      imageConfig_aspectRatio = None\<rparr>"

text \<open>As for the analysis, the result is what \<open>JSON.parse\<close> returns.\<close>

definition ideateBRoll :: "provider \<Rightarrow> ProductAnalysis \<Rightarrow> js_error + json" where
  "ideateBRoll ai analysis =
     (case generateContent ai (broll_request analysis) of
        Inl e \<Rightarrow> Inl e
      | Inr response \<Rightarrow> JSON_parse (or_default (response_text response) ''[]''))"

subsection \<open>\<open>generateProductVideo\<close>\<close>

text \<open>
  What a run of the orchestrator does to the world, in order: a call of the status
  callback with its message, the submission with its request, a suspension with its
  delay in milliseconds, a status query, the fetch of an address.
\<close>

datatype event =
    StatusUpdate string
  | GenerateVideosCall GenerateVideosParameters
  | Sleep nat
  | GetVideosOperationCall
  | FetchCall string

definition video_prompt :: "ProductAnalysis \<Rightarrow> string" where
  "video_prompt analysis =
     ''A professional 1080p commercial video showcasing '' @ productName analysis @
     ''. The camera moves in a smooth cinematic orbit around the product. '' @
     ''Soft studio lighting highlights the '' @ join (materials analysis) '' and '' @
     '' textures. High-end lifestyle background matching '' @
     join (primaryColors analysis) '' and '' @ '' palette.''"

definition video_request :: "string \<Rightarrow> ProductAnalysis \<Rightarrow> GenerateVideosParameters" where
  "video_request base64Image analysis =
     \<lparr>videos_model = ''veo-3.1-fast-generate-preview'',
      prompt = video_prompt analysis,
      imageBytes = image_payload base64Image,
      image_mimeType = ''image/png'',
      numberOfVideos = 1,
      resolution = ''720p'',
      aspectRatio = ''9:16''\<rparr>"

definition loadingMessages :: "string list" where
  "loadingMessages =
     [''Analyzing product geometry...'',
      ''Simulating cinematic lighting...'',
      ''Extrapolating lifestyle environment...'',
      ''Rendering high-fidelity frames...'',
      ''Applying professional color grade...'',
      ''Finalizing export bitrate...'']"

text \<open>
  One turn of the loop body: the status message of index \<open>msgIdx\<close>, the suspension of
  8000 ms, the status query.
\<close>

definition cycle_events :: "nat \<Rightarrow> event list" where
  "cycle_events msgIdx =
     [StatusUpdate (loadingMessages ! (msgIdx mod length loadingMessages)),
      Sleep 8000,
      GetVideosOperationCall]"

text \<open>
  The loop \<open>while (!operation.done)\<close>. \<open>msgIdx\<close> counts the turns made, so the next status
  query is number \<open>msgIdx\<close> of the run. The loop may run forever: no result is \<open>None\<close>.
  Its result is the operation that ended it, or what a status query threw, and the
  events so far.
\<close>

partial_function (option) poll_loop ::
  "provider \<Rightarrow> GenerateVideosOperation \<Rightarrow> nat \<Rightarrow> event list
     \<Rightarrow> ((js_error + GenerateVideosOperation) \<times> event list) option" where
  "poll_loop ai operation msgIdx log =
     (if op_done operation then Some (Inr operation, log)
      else
        (case getVideosOperation ai msgIdx of
           Inl e \<Rightarrow> Some (Inl e, log @ cycle_events msgIdx)
         | Inr operation' \<Rightarrow>
             poll_loop ai operation' (msgIdx + 1) (log @ cycle_events msgIdx)))"

text \<open>\<open>operation.response?.generatedVideos?.[0]?.video?.uri\<close>\<close>

definition downloadLink :: "GenerateVideosOperation \<Rightarrow> string option" where
  "downloadLink operation =
     (case op_response operation of
        None \<Rightarrow> None
      | Some r \<Rightarrow>
          (case generatedVideos r of
             None \<Rightarrow> None
           | Some vs \<Rightarrow>
               (case first vs of
                  None \<Rightarrow> None
                | Some gv \<Rightarrow> (case video gv of None \<Rightarrow> None | Some v \<Rightarrow> uri v))))"

text \<open>What follows the loop: the check of the address, the fetch, the object URL.\<close>

definition download :: "provider \<Rightarrow> GenerateVideosOperation \<Rightarrow> event list
    \<Rightarrow> (js_error + string) \<times> event list" where
  "download ai operation log =
     (if falsy (downloadLink operation)
      then (Inl (Error ''Video generation failed - no URI''), log)
      else
        (let address = template (downloadLink operation) @ ''&key='' @ template (API_KEY ai)
         in case fetch ai address of
              Inl e \<Rightarrow> (Inl e, log @ [FetchCall address])
            | Inr fetched \<Rightarrow>
                (case fetched of
                   Inl e \<Rightarrow> (Inl e, log @ [FetchCall address])
                 | Inr videoBlob \<Rightarrow>
                     (Inr (createObjectURL ai videoBlob), log @ [FetchCall address]))))"

definition generateProductVideo ::
  "provider \<Rightarrow> string \<Rightarrow> ProductAnalysis \<Rightarrow> ((js_error + string) \<times> event list) option" where
  "generateProductVideo ai base64Image analysis =
     (let log0 =
        [StatusUpdate ''Initializing Video Engine...'',
         GenerateVideosCall (video_request base64Image analysis)]
      in case generateVideos ai (video_request base64Image analysis) of
           Inl e \<Rightarrow> Some (Inl e, log0)
         | Inr operation \<Rightarrow>
             (case poll_loop ai operation 0 log0 of
                None \<Rightarrow> None
              | Some (Inl e, log1) \<Rightarrow> Some (Inl e, log1)
              | Some (Inr finished, log1) \<Rightarrow> Some (download ai finished log1)))"

section \<open>The application shell (\<open>App.tsx\<close>)\<close>

text \<open>The state variables of the component \<open>App\<close>, with their initial values.\<close>

record app_state =
  originalImage :: "string option"
  analysis :: "ProductAnalysis option"
  toastMessage :: "string option"
  videoStatus :: string
  credits :: int
  showUpgradeModal :: bool
  assets :: CreativeAssets
  loading :: LoadingState

definition no_assets :: CreativeAssets where
  "no_assets =
     \<lparr>assets_originalImage = None, lifestyleImage = None, tiktokScript = None,
      bRollConcepts = None, productVideoUrl = None\<rparr>"

definition initial_state :: app_state where
  "initial_state =
     \<lparr>originalImage = None,
      analysis = None,
      toastMessage = None,
      videoStatus = ''Initializing...'',
      credits = 3,
      showUpgradeModal = False,
      assets = no_assets,
      loading =
        \<lparr>analyzing = False, generatingImage = False, writingScript = False,
         ideatingBRoll = False, generatingVideo = False\<rparr>\<rparr>"

text \<open>
  A handler is modelled as one step from the state at the click to the state after the
  request has settled. The shell imports the five services; a handler takes the service
  it calls as an argument, at the type the service declares (\<open>Promise<T>\<close> is a thrown
  error or a \<open>T\<close>), so that it can be run with any behaviour of the service.
\<close>

definition showToast :: "string \<Rightarrow> app_state \<Rightarrow> app_state" where
  "showToast msg s = s\<lparr>toastMessage := Some msg\<rparr>"

definition handleAnalysis ::
  "(string \<Rightarrow> js_error + ProductAnalysis) \<Rightarrow> string \<Rightarrow> app_state \<Rightarrow> app_state" where
  "handleAnalysis analyzeProductImage' img s =
     (let s1 = s\<lparr>loading := (loading s)\<lparr>analyzing := True\<rparr>\<rparr>;
          s2 =
            (case analyzeProductImage' img of
               Inr result \<Rightarrow>
                 showToast ''Analysis complete! 1 credit used.''
                   (s1\<lparr>analysis := Some result, credits := max 0 (credits s1 - 1)\<rparr>)
             | Inl error \<Rightarrow> showToast ''Analysis failed. Try another image.'' s1)
      in s2\<lparr>loading := (loading s2)\<lparr>analyzing := False\<rparr>\<rparr>)"

text \<open>
  \<open>file\<close> is the chosen file as the reader returns it (a data URL), \<open>None\<close> when no file
  was chosen.
\<close>

definition handleFileUpload ::
  "(string \<Rightarrow> js_error + ProductAnalysis) \<Rightarrow> string option \<Rightarrow> app_state \<Rightarrow> app_state" where
  "handleFileUpload analyzeProductImage' file s =
     (if credits s \<le> 0 then s\<lparr>showUpgradeModal := True\<rparr>
      else
        (case file of
           None \<Rightarrow> s
         | Some base64 \<Rightarrow>
             handleAnalysis analyzeProductImage' base64 (s\<lparr>originalImage := Some base64\<rparr>)))"

text \<open>
  \<open>sample\<close> is what fetching the sample image gives: a thrown error, or the image as the
  reader returns it.
\<close>

definition handleSampleLoad ::
  "(string \<Rightarrow> js_error + ProductAnalysis) \<Rightarrow> js_error + string \<Rightarrow> app_state \<Rightarrow> app_state" where
  "handleSampleLoad analyzeProductImage' sample s =
     (if credits s \<le> 0 then s\<lparr>showUpgradeModal := True\<rparr>
      else
        (let s1 = s\<lparr>loading := (loading s)\<lparr>analyzing := True\<rparr>\<rparr>
         in case sample of
              Inl e \<Rightarrow> showToast ''Failed to load sample image.'' s1
            | Inr base64 \<Rightarrow>
                handleAnalysis analyzeProductImage' base64 (s1\<lparr>originalImage := Some base64\<rparr>)))"

text \<open>
  \<open>setVideoStatus\<close> is the status callback of the orchestrator: the status shown after a
  run is the last message the run sent, if it sent one.
\<close>

fun apply_status :: "event list \<Rightarrow> string \<Rightarrow> string" where
  "apply_status [] status = status"
| "apply_status (StatusUpdate m # es) status = apply_status es m"
| "apply_status (e # es) status = apply_status es status"

text \<open>\<open>error?.message?.includes("Requested entity was not found")\<close>\<close>

definition entity_not_found :: "js_error \<Rightarrow> bool" where
  "entity_not_found error =
     (case message error of
        None \<Rightarrow> False
      | Some m \<Rightarrow> str_includes m ''Requested entity was not found'')"

text \<open>
  \<open>aistudio\<close> is \<open>window.aistudio\<close>: \<open>None\<close> when the page has none, otherwise what
  \<open>hasSelectedApiKey()\<close> settles to. When that call throws, the handler ends there, before
  any update. The result is the state and the events of the orchestrator's run; it is
  \<open>None\<close> when the orchestrator never returns.
\<close>

definition onGenerateVideo ::
  "(js_error + bool) option
     \<Rightarrow> (string \<Rightarrow> ProductAnalysis \<Rightarrow> ((js_error + string) \<times> event list) option)
     \<Rightarrow> app_state \<Rightarrow> (app_state \<times> event list) option" where
  "onGenerateVideo aistudio generateProductVideo' s =
     (case aistudio of
        Some (Inl e) \<Rightarrow> Some (s, [])
      | Some (Inr True) \<Rightarrow>
          (case (originalImage s, analysis s) of
             (Some img, Some a) \<Rightarrow>
               (if img = [] then Some (s, [])
                else
                  (let s1 = s\<lparr>loading := (loading s)\<lparr>generatingVideo := True\<rparr>\<rparr>
                   in case generateProductVideo' img a of
                        None \<Rightarrow> None
                      | Some (settled, log) \<Rightarrow>
                          (let s2 = s1\<lparr>videoStatus := apply_status log (videoStatus s1)\<rparr>;
                               s3 =
                                 (case settled of
                                    Inr result \<Rightarrow>
                                      showToast ''Campaign video generated!''
                                        (s2\<lparr>assets := (assets s2)\<lparr>productVideoUrl := Some result\<rparr>\<rparr>)
                                  | Inl error \<Rightarrow>
                                      (if entity_not_found error
                                       then (showToast ''Session expired. Please re-link your key.'' s2)
                                              \<lparr>showUpgradeModal := True\<rparr>
                                       else showToast ''Video generation failed.'' s2))
                           in Some (s3\<lparr>loading := (loading s3)\<lparr>generatingVideo := False\<rparr>\<rparr>, log))))
           | _ \<Rightarrow> Some (s, []))
      | _ \<Rightarrow> Some (s\<lparr>showUpgradeModal := True\<rparr>, []))"

text \<open>
  \<open>aistudio\<close> is \<open>window.aistudio\<close> again, with what \<open>openSelectKey()\<close> settles to.
\<close>

definition handleUpgrade :: "(js_error + unit) option \<Rightarrow> app_state \<Rightarrow> app_state" where
  "handleUpgrade aistudio s =
     (case aistudio of
        Some (Inr u) \<Rightarrow> (showToast ''Pro features unlocked!'' (s\<lparr>showUpgradeModal := False\<rparr>))\<lparr>credits := 99\<rparr>
      | _ \<Rightarrow> s)"

definition onGenerateImage ::
  "(string \<Rightarrow> ProductAnalysis \<Rightarrow> js_error + string) \<Rightarrow> app_state \<Rightarrow> app_state" where
  "onGenerateImage generateLifestyleImage' s =
     (case (originalImage s, analysis s) of
        (Some img, Some a) \<Rightarrow>
          (if img = [] then s
           else
             (let s1 = s\<lparr>loading := (loading s)\<lparr>generatingImage := True\<rparr>\<rparr>;
                  s2 =
                    (case generateLifestyleImage' img a of
                       Inr result \<Rightarrow>
                         showToast ''Lifestyle photo generated!''
                           (s1\<lparr>assets := (assets s1)\<lparr>lifestyleImage := Some result\<rparr>\<rparr>)
                     | Inl error \<Rightarrow> showToast ''Failed to generate image.'' s1)
              in s2\<lparr>loading := (loading s2)\<lparr>generatingImage := False\<rparr>\<rparr>))
      | _ \<Rightarrow> s)"

definition onWriteScript ::
  "(ProductAnalysis \<Rightarrow> js_error + string) \<Rightarrow> app_state \<Rightarrow> app_state" where
  "onWriteScript writeViralScript' s =
     (case analysis s of
        None \<Rightarrow> s
      | Some a \<Rightarrow>
          (let s1 = s\<lparr>loading := (loading s)\<lparr>writingScript := True\<rparr>\<rparr>;
               s2 =
                 (case writeViralScript' a of
                    Inr result \<Rightarrow>
                      showToast ''Viral script ready!''
                        (s1\<lparr>assets := (assets s1)\<lparr>tiktokScript := Some result\<rparr>\<rparr>)
                  | Inl error \<Rightarrow> showToast ''Failed to write script.'' s1)
           in s2\<lparr>loading := (loading s2)\<lparr>writingScript := False\<rparr>\<rparr>))"

definition onIdeateBRoll ::
  "(ProductAnalysis \<Rightarrow> js_error + string list) \<Rightarrow> app_state \<Rightarrow> app_state" where
  "onIdeateBRoll ideateBRoll' s =
     (case analysis s of
        None \<Rightarrow> s
      | Some a \<Rightarrow>
          (let s1 = s\<lparr>loading := (loading s)\<lparr>ideatingBRoll := True\<rparr>\<rparr>;
               s2 =
                 (case ideateBRoll' a of
                    Inr result \<Rightarrow>
                      showToast ''B-roll concepts created!''
                        (s1\<lparr>assets := (assets s1)\<lparr>bRollConcepts := Some result\<rparr>\<rparr>)
                  | Inl error \<Rightarrow> showToast ''Failed to ideate B-roll.'' s1)
           in s2\<lparr>loading := (loading s2)\<lparr>ideatingBRoll := False\<rparr>\<rparr>))"

definition copyToClipboard :: "string \<Rightarrow> app_state \<Rightarrow> app_state" where
  "copyToClipboard t s = showToast ''Copied to clipboard!'' s"

text \<open>The handler of the button "New Campaign".\<close>

definition newCampaign :: "app_state \<Rightarrow> app_state" where
  "newCampaign s =
     s\<lparr>originalImage := None,
       analysis := None,
       assets :=
         \<lparr>assets_originalImage = None, lifestyleImage = None, tiktokScript = None,
          bRollConcepts = None, productVideoUrl = None\<rparr>\<rparr>"

text \<open>
  Every action of the shell that changes its state, with what the world answers to it:
  the five requests, the upgrade, the new campaign, and the buttons that open and close
  the upgrade prompt and close the toast.
\<close>

datatype action =
    FileUpload "string \<Rightarrow> js_error + ProductAnalysis" "string option"
  | SampleLoad "string \<Rightarrow> js_error + ProductAnalysis" "js_error + string"
  | GenerateVideo "(js_error + bool) option"
      "string \<Rightarrow> ProductAnalysis \<Rightarrow> ((js_error + string) \<times> event list) option"
  | Upgrade "(js_error + unit) option"
  | GenerateImage "string \<Rightarrow> ProductAnalysis \<Rightarrow> js_error + string"
  | WriteScript "ProductAnalysis \<Rightarrow> js_error + string"
  | IdeateBRoll "ProductAnalysis \<Rightarrow> js_error + string list"
  | CopyToClipboard string
  | NewCampaign
  | OpenUpgradeModal
  | CloseUpgradeModal
  | CloseToast

fun step :: "action \<Rightarrow> app_state \<Rightarrow> app_state option" where
  "step (FileUpload f file) s = Some (handleFileUpload f file s)"
| "step (SampleLoad f sample) s = Some (handleSampleLoad f sample s)"
| "step (GenerateVideo aistudio f) s = map_option fst (onGenerateVideo aistudio f s)"
| "step (Upgrade aistudio) s = Some (handleUpgrade aistudio s)"
| "step (GenerateImage f) s = Some (onGenerateImage f s)"
| "step (WriteScript f) s = Some (onWriteScript f s)"
| "step (IdeateBRoll f) s = Some (onIdeateBRoll f s)"
| "step (CopyToClipboard t) s = Some (copyToClipboard t s)"
| "step NewCampaign s = Some (newCampaign s)"
| "step OpenUpgradeModal s = Some (s\<lparr>showUpgradeModal := True\<rparr>)"
| "step CloseUpgradeModal s = Some (s\<lparr>showUpgradeModal := False\<rparr>)"
| "step CloseToast s = Some (s\<lparr>toastMessage := None\<rparr>)"

text \<open>
  A run of actions, one after the other; an action whose request never settles has no
  state after it.
\<close>

fun run :: "action list \<Rightarrow> app_state \<Rightarrow> app_state option" where
  "run [] s = Some s"
| "run (a # as) s = (case step a s of None \<Rightarrow> None | Some s' \<Rightarrow> run as s')"

section \<open>Example inputs\<close>

definition example_analysis :: ProductAnalysis where
  "example_analysis =
     \<lparr>productName = ''Ceramic Mug'', productType = ''Drinkware'',
      materials = [''ceramic''], primaryColors = [''white'', ''blue''],
      targetAudience = ''Coffee lovers''\<rparr>"

definition example_image :: string where
  "example_image = ''data:image/png;base64,iVBORw0KGgo=''"

definition pending_operation :: GenerateVideosOperation where
  "pending_operation = \<lparr>op_done = False, op_response = None\<rparr>"

definition finished_operation :: GenerateVideosOperation where
  "finished_operation =
     \<lparr>op_done = True,
      op_response =
        Some \<lparr>generatedVideos =
          Some [\<lparr>video = Some \<lparr>uri = Some ''https://video.example/v1?alt=media''\<rparr>\<rparr>]\<rparr>\<rparr>"

text \<open>
  A provider whose video operation is done at status query number \<open>n\<close> counted from 1
  (at the submission when \<open>n = 0\<close>), and one whose operation is never done.
\<close>

definition video_provider :: "nat \<Rightarrow> provider" where
  "video_provider n =
     \<lparr>generateContent = (\<lambda>request. Inl (Error ''offline'')),
      generateVideos = (\<lambda>request. Inr (if 0 < n then pending_operation else finished_operation)),
      getVideosOperation = (\<lambda>k. Inr (if Suc k < n then pending_operation else finished_operation)),
      fetch = (\<lambda>address. Inr (Inr ''mp4'')),
      createObjectURL = (\<lambda>videoBlob. ''blob:video''),
      API_KEY = Some ''KEY''\<rparr>"

definition stuck_provider :: provider where
  "stuck_provider =
     \<lparr>generateContent = (\<lambda>request. Inl (Error ''offline'')),
      generateVideos = (\<lambda>request. Inr pending_operation),
      getVideosOperation = (\<lambda>k. Inr pending_operation),
      fetch = (\<lambda>address. Inr (Inr ''mp4'')),
      createObjectURL = (\<lambda>videoBlob. ''blob:video''),
      API_KEY = Some ''KEY''\<rparr>"

text \<open>A provider of videos with the given answers, for the runs that fail.\<close>

definition example_provider ::
  "js_error + GenerateVideosOperation \<Rightarrow> (nat \<Rightarrow> js_error + GenerateVideosOperation)
     \<Rightarrow> js_error + (js_error + string) \<Rightarrow> provider" where
  "example_provider submitted answers fetched =
     \<lparr>generateContent = (\<lambda>request. Inl (Error ''offline'')),
      generateVideos = (\<lambda>request. submitted),
      getVideosOperation = answers,
      fetch = (\<lambda>address. fetched),
      createObjectURL = (\<lambda>videoBlob. ''blob:video''),
      API_KEY = Some ''KEY''\<rparr>"


text \<open>
  A provider that gives the same answer to every content request, and three responses:
  one with text only, one whose second and third parts carry inline data, one with no
  candidate at all.
\<close>

definition content_provider :: "js_error + GenerateContentResponse \<Rightarrow> provider" where
  "content_provider answer =
     \<lparr>generateContent = (\<lambda>request. answer),
      generateVideos = (\<lambda>request. Inl (Error ''offline'')),
      getVideosOperation = (\<lambda>k. Inl (Error ''offline'')),
      fetch = (\<lambda>address. Inl (Error ''offline'')),
      createObjectURL = (\<lambda>videoBlob. ''blob:none''),
      API_KEY = Some ''KEY''\<rparr>"

definition text_response :: "string \<Rightarrow> GenerateContentResponse" where
  "text_response t =
     \<lparr>candidates = Some [\<lparr>content = Some \<lparr>parts = Some [text_part t]\<rparr>\<rparr>],
      response_text = Some t\<rparr>"

definition image_response :: GenerateContentResponse where
  "image_response =
     \<lparr>candidates =
        Some [\<lparr>content =
          Some \<lparr>parts =
            Some [text_part ''Here is your photo.'',
                  \<lparr>inlineData = Some \<lparr>mimeType = Some ''image/png'', data = Some ''QUJD''\<rparr>,
                   part_text = None\<rparr>,
                  \<lparr>inlineData = Some \<lparr>mimeType = Some ''image/png'', data = Some ''REVG''\<rparr>,
                   part_text = None\<rparr>]\<rparr>\<rparr>],
      response_text = Some ''Here is your photo.''\<rparr>"

definition empty_response :: GenerateContentResponse where
  "empty_response = \<lparr>candidates = None, response_text = None\<rparr>"

text \<open>
  Every part of every candidate of a response: what a response contains, in the words
  of the specification. No service reads it; it only states what \<open>response_parts\<close> leaves
  out.
\<close>

definition all_parts :: "GenerateContentResponse \<Rightarrow> Part list" where
  "all_parts r =
     (case candidates r of
        None \<Rightarrow> []
      | Some cs \<Rightarrow>
          concat
            (map (\<lambda>c. case content c of
                         None \<Rightarrow> []
                       | Some ct \<Rightarrow> (case parts ct of None \<Rightarrow> [] | Some ps \<Rightarrow> ps))
               cs))"

text \<open>A response with two candidates, whose only inline data is in the second.\<close>

definition second_candidate_response :: GenerateContentResponse where
  "second_candidate_response =
     \<lparr>candidates =
        Some [\<lparr>content = Some \<lparr>parts = Some [text_part ''Here is your photo.'']\<rparr>\<rparr>,
              \<lparr>content =
                 Some \<lparr>parts =
                   Some [\<lparr>inlineData =
                            Some \<lparr>mimeType = Some ''image/png'', data = Some ''QUJD''\<rparr>,
                          part_text = None\<rparr>]\<rparr>\<rparr>],
      response_text = Some ''Here is your photo.''\<rparr>"

text \<open>The state after the example image has been uploaded and analysed.\<close>

definition analysed_state :: app_state where
  "analysed_state =
     initial_state\<lparr>originalImage := Some example_image,
       analysis := Some example_analysis, credits := 2\<rparr>"

text \<open>Response texts: a product analysis, and a list of two ideas.\<close>

definition quoted :: "string \<Rightarrow> string" where
  "quoted s = CHR 0x22 # s @ [CHR 0x22]"


definition ideas_text :: string where
  "ideas_text = ''['' @ quoted ''Macro shot of glaze'' @ '', '' @ quoted ''Steam rising'' @ '']''"

text \<open>A campaign that already has its lifestyle photo and its script.\<close>

definition campaign_state :: app_state where
  "campaign_state =
     analysed_state\<lparr>assets :=
       no_assets\<lparr>lifestyleImage := Some ''data:image/png;base64,QUJD'',
         tiktokScript := Some ''POV: your coffee stays hot.''\<rparr>\<rparr>"

text \<open>
  A session: three uploads that are analysed, a fourth that finds no credit left, the
  upgrade, a last upload; and the same session up to the fourth upload.
\<close>

definition upload :: action where
  "upload = FileUpload (\<lambda>img. Inr example_analysis) (Some example_image)"

definition spending :: "action list" where
  "spending = [upload, upload, upload, upload]"

definition session :: "action list" where
  "session = spending @ [Upgrade (Some (Inr ())), NewCampaign, upload]"

section \<open>Properties of the polling loop\<close>

text \<open>
  In the lemmas on the loop, \<open>ops k\<close> is the operation the run holds before status query
  number \<open>k\<close>: \<open>ops 0\<close> is what the submission returned and \<open>ops (Suc k)\<close> is the answer to
  query \<open>k\<close>.
\<close>

lemma poll_loop_runs:
  assumes ans: "\<forall>k. i \<le> k \<and> k < m \<longrightarrow> getVideosOperation ai k = Inr (ops (Suc k))"
    and pend: "\<forall>k. i \<le> k \<and> k < m \<longrightarrow> \<not> op_done (ops k)"
    and fin: "op_done (ops m)"
    and le: "i \<le> m"
  shows "poll_loop ai (ops i) i log = Some (Inr (ops m), log @ concat (map cycle_events [i..<m]))"
  using ans pend le
proof (induction "m - i" arbitrary: i log)
  case 0
  then have "i = m" by simp
  with fin show ?case by (simp add: poll_loop.simps)
next
  case (Suc d)
  then have lt: "i < m" by simp
  with Suc.prems have nd: "\<not> op_done (ops i)"
    and a: "getVideosOperation ai i = Inr (ops (Suc i))"
    by auto
  have d: "d = m - Suc i" using Suc.hyps(2) by simp
  have "poll_loop ai (ops (Suc i)) (Suc i) (log @ cycle_events i)
      = Some (Inr (ops m), (log @ cycle_events i) @ concat (map cycle_events [Suc i..<m]))"
    using Suc.hyps(1) [OF d] Suc.prems lt by auto
  moreover have "[i..<m] = i # [Suc i..<m]" using lt by (simp add: upt_conv_Cons)
  ultimately show ?case
    using nd a by (subst poll_loop.simps) simp
qed


text \<open>
  A loop that returned did not start from a sequence of operations none of which is
  done: by induction on the computation of the loop.
\<close>

lemma poll_loop_returned:
  assumes ans: "\<forall>k. getVideosOperation ai k = Inr (ops (Suc k))"
    and pend: "\<forall>k. \<not> op_done (ops k)"
    and r: "poll_loop ai operation i log = Some r"
  shows "operation \<noteq> ops i"
proof -
  have "ai = ai \<longrightarrow> operation \<noteq> ops i"
  proof (rule poll_loop.raw_induct
      [where P = "\<lambda>a operation i log r. a = ai \<longrightarrow> operation \<noteq> ops i", OF _ r])
    fix f :: "provider \<Rightarrow> GenerateVideosOperation \<Rightarrow> nat \<Rightarrow> event list
        \<Rightarrow> ((js_error + GenerateVideosOperation) \<times> event list) option"
      and a :: provider and operation :: GenerateVideosOperation
      and msgIdx :: nat and log :: "event list"
      and y :: "(js_error + GenerateVideosOperation) \<times> event list"
    assume IH: "\<And>a' operation' msgIdx' log' y'.
        f a' operation' msgIdx' log' = Some y' \<Longrightarrow> a' = ai \<longrightarrow> operation' \<noteq> ops msgIdx'"
      and body: "(if op_done operation then Some (Inr operation, log)
          else case getVideosOperation a msgIdx of
                 Inl e \<Rightarrow> Some (Inl e, log @ cycle_events msgIdx)
               | Inr operation' \<Rightarrow> f a operation' (msgIdx + 1) (log @ cycle_events msgIdx))
          = Some y"
    show "a = ai \<longrightarrow> operation \<noteq> ops msgIdx"
    proof (intro impI notI)
      assume e: "a = ai" "operation = ops msgIdx"
      with pend have nd: "\<not> op_done operation" by simp
      from e ans have "getVideosOperation a msgIdx = Inr (ops (Suc msgIdx))" by simp
      with body nd
      have "f a (ops (Suc msgIdx)) (msgIdx + 1) (log @ cycle_events msgIdx) = Some y"
        by simp
      from IH [OF this] e show False by simp
    qed
  qed
  then show ?thesis by simp
qed

lemma poll_loop_forever:
  assumes ans: "\<forall>k. getVideosOperation ai k = Inr (ops (Suc k))"
    and pend: "\<forall>k. \<not> op_done (ops k)"
  shows "poll_loop ai (ops i) i log = None"
proof (cases "poll_loop ai (ops i) i log")
  case None
  then show ?thesis .
next
  case (Some r)
  from poll_loop_returned [OF ans pend Some] show ?thesis by simp
qed

lemma cycle_events_eq:
  "cycle_events =
     (\<lambda>k. [StatusUpdate (loadingMessages ! (k mod 6)), Sleep 8000, GetVideosOperationCall])"
  by (rule ext) (simp add: cycle_events_def loadingMessages_def)

lemma generateProductVideo_completes:
  assumes sub: "generateVideos ai (video_request img a) = Inr (ops 0)"
    and ans: "\<forall>k<m. getVideosOperation ai k = Inr (ops (Suc k))"
    and pend: "\<forall>k<m. \<not> op_done (ops k)"
    and fin: "op_done (ops m)"
  shows "generateProductVideo ai img a =
    Some (download ai (ops m)
      ([StatusUpdate ''Initializing Video Engine...'', GenerateVideosCall (video_request img a)]
       @ concat (map cycle_events [0..<m])))"
proof -
  have "poll_loop ai (ops 0) 0
      [StatusUpdate ''Initializing Video Engine...'', GenerateVideosCall (video_request img a)]
    = Some (Inr (ops m),
        [StatusUpdate ''Initializing Video Engine...'', GenerateVideosCall (video_request img a)]
        @ concat (map cycle_events [0..<m]))"
    using ans pend fin by (intro poll_loop_runs) auto
  with sub show ?thesis by (simp add: generateProductVideo_def)
qed


lemma generateProductVideo_forever:
  assumes sub: "generateVideos ai (video_request img a) = Inr (ops 0)"
    and ans: "\<forall>k. getVideosOperation ai k = Inr (ops (Suc k))"
    and pend: "\<forall>k. \<not> op_done (ops k)"
  shows "generateProductVideo ai img a = None"
  using sub poll_loop_forever [OF ans pend, of 0]
  by (simp add: generateProductVideo_def)

section \<open>Properties of the video orchestrator\<close>

text \<open>
  C1. In every run of \<open>generateProductVideo\<close> whose submission succeeds and whose
  operation is reported done after finitely many status queries (none for \<open>m = 0\<close>), the
  polling loop ends and the function returns: after the initial status and the
  submission, the run makes exactly \<open>m\<close> turns, turn \<open>k\<close> sending status message number
  \<open>k mod 6\<close> of the list, suspending for 8000 ms and querying the status once; then it goes
  on to the download. Nothing bounds \<open>m\<close>; and when no answer ever reports the operation
  done, the function never returns.
\<close>

theorem generateProductVideo_polling_terminates:
  assumes sub: "generateVideos ai (video_request img a) = Inr (ops 0)"
  shows
    "((\<forall>k<m. getVideosOperation ai k = Inr (ops (Suc k))) \<and>
      (\<forall>k<m. \<not> op_done (ops k)) \<and> op_done (ops m) \<longrightarrow>
        generateProductVideo ai img a =
          Some (download ai (ops m)
            ([StatusUpdate ''Initializing Video Engine...'',
              GenerateVideosCall (video_request img a)]
             @ concat (map (\<lambda>k. [StatusUpdate (loadingMessages ! (k mod 6)), Sleep 8000,
                                   GetVideosOperationCall]) [0..<m])))) \<and>
     ((\<forall>k. getVideosOperation ai k = Inr (ops (Suc k))) \<and> (\<forall>k. \<not> op_done (ops k)) \<longrightarrow>
        generateProductVideo ai img a = None)"
proof (intro conjI impI)
  assume h: "(\<forall>k<m. getVideosOperation ai k = Inr (ops (Suc k))) \<and>
      (\<forall>k<m. \<not> op_done (ops k)) \<and> op_done (ops m)"
  then have "generateProductVideo ai img a =
    Some (download ai (ops m)
      ([StatusUpdate ''Initializing Video Engine...'', GenerateVideosCall (video_request img a)]
       @ concat (map cycle_events [0..<m])))"
    using sub by (intro generateProductVideo_completes) auto
  then show "generateProductVideo ai img a =
          Some (download ai (ops m)
            ([StatusUpdate ''Initializing Video Engine...'',
              GenerateVideosCall (video_request img a)]
             @ concat (map (\<lambda>k. [StatusUpdate (loadingMessages ! (k mod 6)), Sleep 8000,
                                   GetVideosOperationCall]) [0..<m])))"
    by (simp add: cycle_events_eq)
next
  assume "(\<forall>k. getVideosOperation ai k = Inr (ops (Suc k))) \<and> (\<forall>k. \<not> op_done (ops k))"
  then show "generateProductVideo ai img a = None"
    using sub by (intro generateProductVideo_forever) auto
qed

theorem generateProductVideo_polling_terminates_witness:
  "generateProductVideo (video_provider 7) example_image example_analysis =
     Some (Inr ''blob:video'',
       [StatusUpdate ''Initializing Video Engine...'',
        GenerateVideosCall (video_request example_image example_analysis),
        StatusUpdate ''Analyzing product geometry...'', Sleep 8000, GetVideosOperationCall,
        StatusUpdate ''Simulating cinematic lighting...'', Sleep 8000, GetVideosOperationCall,
        StatusUpdate ''Extrapolating lifestyle environment...'', Sleep 8000, GetVideosOperationCall,
        StatusUpdate ''Rendering high-fidelity frames...'', Sleep 8000, GetVideosOperationCall,
        StatusUpdate ''Applying professional color grade...'', Sleep 8000, GetVideosOperationCall,
        StatusUpdate ''Finalizing export bitrate...'', Sleep 8000, GetVideosOperationCall,
        StatusUpdate ''Analyzing product geometry...'', Sleep 8000, GetVideosOperationCall,
        FetchCall ''https://video.example/v1?alt=media&key=KEY'']) \<and>
   generateProductVideo stuck_provider example_image example_analysis = None"
proof
  let ?ops = "\<lambda>k::nat. if k < 7 then pending_operation else finished_operation"
  have sub: "generateVideos (video_provider 7) (video_request example_image example_analysis)
      = Inr (?ops 0)"
    by (simp add: video_provider_def)
  have run: "(\<forall>k<7. getVideosOperation (video_provider 7) k = Inr (?ops (Suc k))) \<and>
      (\<forall>k<7. \<not> op_done (?ops k)) \<and> op_done (?ops 7)"
    by (auto simp: video_provider_def pending_operation_def finished_operation_def)
  have seven: "[0..<7] = [0, 1, 2, 3, 4, 5, 6::nat]"
    by (simp add: upt_rec)
  from generateProductVideo_polling_terminates
    [of "video_provider 7" example_image example_analysis ?ops 7] sub run
  have "generateProductVideo (video_provider 7) example_image example_analysis =
      Some (download (video_provider 7) (?ops 7)
        ([StatusUpdate ''Initializing Video Engine...'',
          GenerateVideosCall (video_request example_image example_analysis)]
         @ concat (map (\<lambda>k. [StatusUpdate (loadingMessages ! (k mod 6)), Sleep 8000,
                               GetVideosOperationCall]) [0..<7])))"
    by blast
  then show "generateProductVideo (video_provider 7) example_image example_analysis =
     Some (Inr ''blob:video'',
       [StatusUpdate ''Initializing Video Engine...'',
        GenerateVideosCall (video_request example_image example_analysis),
        StatusUpdate ''Analyzing product geometry...'', Sleep 8000, GetVideosOperationCall,
        StatusUpdate ''Simulating cinematic lighting...'', Sleep 8000, GetVideosOperationCall,
        StatusUpdate ''Extrapolating lifestyle environment...'', Sleep 8000, GetVideosOperationCall,
        StatusUpdate ''Rendering high-fidelity frames...'', Sleep 8000, GetVideosOperationCall,
        StatusUpdate ''Applying professional color grade...'', Sleep 8000, GetVideosOperationCall,
        StatusUpdate ''Finalizing export bitrate...'', Sleep 8000, GetVideosOperationCall,
        StatusUpdate ''Analyzing product geometry...'', Sleep 8000, GetVideosOperationCall,
        FetchCall ''https://video.example/v1?alt=media&key=KEY''])"
    by (simp add: seven download_def downloadLink_def finished_operation_def
        video_provider_def loadingMessages_def)
next
  let ?ops = "\<lambda>k::nat. pending_operation"
  have sub: "generateVideos stuck_provider (video_request example_image example_analysis)
      = Inr (?ops 0)"
    by (simp add: stuck_provider_def)
  have run: "(\<forall>k. getVideosOperation stuck_provider k = Inr (?ops (Suc k))) \<and>
      (\<forall>k. \<not> op_done (?ops k))"
    by (simp add: stuck_provider_def pending_operation_def)
  from generateProductVideo_polling_terminates
    [of stuck_provider example_image example_analysis ?ops 0] sub run
  show "generateProductVideo stuck_provider example_image example_analysis = None"
    by blast
qed



section \<open>Properties of the lifestyle image generator\<close>

lemma first_image_none:
  "first_image ps = Inl (Error ''No image generated'') \<longleftrightarrow> (\<forall>p\<in>set ps. inlineData p = None)"
  by (induction ps) (auto split: option.splits)

lemma first_image_some:
  "(\<forall>q\<in>set before. inlineData q = None) \<Longrightarrow> inlineData p = Some d \<Longrightarrow>
     first_image (before @ p # after) = Inr (''data:image/png;base64,'' @ template (data d))"
  by (induction before) auto

text \<open>
  C4, as stated, fails: the function reads the parts of the first candidate only. On a
  response whose only part with inline data is in its second candidate it fails with
  "No image generated", although the response contains a part with inline image data.
\<close>

theorem generateLifestyleImage_second_candidate_counterexample:
  "generateLifestyleImage (content_provider (Inr second_candidate_response))
     example_image example_analysis = Inl (Error ''No image generated'') \<and>
   all_parts second_candidate_response =
     [text_part ''Here is your photo.'',
      \<lparr>inlineData = Some \<lparr>mimeType = Some ''image/png'', data = Some ''QUJD''\<rparr>,
       part_text = None\<rparr>] \<and>
   inlineData
     \<lparr>inlineData = Some \<lparr>mimeType = Some ''image/png'', data = Some ''QUJD''\<rparr>,
      part_text = None\<rparr> =
     Some \<lparr>mimeType = Some ''image/png'', data = Some ''QUJD''\<rparr>"
  by (simp add: generateLifestyleImage_def content_provider_def second_candidate_response_def
      response_parts_def all_parts_def text_part_def)

text \<open>
  C4, amended. Let the provider answer the lifestyle request with a response, and let
  the parts be those of its first candidate (none when the candidate, its content or its
  parts are missing); candidates after the first are not read. The function fails with
  the error "No image generated" exactly when no part of the first candidate carries
  inline data; when a part of the first candidate does, the result is the data URL built
  from the first such part. In the failing case the handler \<open>onGenerateImage\<close>, run on a
  state with an image and an analysis, leaves every asset as it was (so \<open>lifestyleImage\<close>
  stays null if it was) and shows the toast "Failed to generate image.".
\<close>

theorem generateLifestyleImage_no_image:
  assumes answer: "generateContent ai (lifestyle_request img a) = Inr r"
  shows
    "(generateLifestyleImage ai img a = Inl (Error ''No image generated'') \<longleftrightarrow>
        (\<forall>p\<in>set (response_parts r). inlineData p = None)) \<and>
     (response_parts r = before @ p # after \<and> (\<forall>q\<in>set before. inlineData q = None) \<and>
      inlineData p = Some d \<longrightarrow>
        generateLifestyleImage ai img a =
          Inr (''data:image/png;base64,'' @ template (data d))) \<and>
     ((\<forall>p\<in>set (response_parts r). inlineData p = None) \<and>
      originalImage s = Some img \<and> img \<noteq> [] \<and> analysis s = Some a \<longrightarrow>
        assets (onGenerateImage (generateLifestyleImage ai) s) = assets s \<and>
        toastMessage (onGenerateImage (generateLifestyleImage ai) s) =
          Some ''Failed to generate image.'')"
proof (intro conjI impI)
  show "generateLifestyleImage ai img a = Inl (Error ''No image generated'') \<longleftrightarrow>
      (\<forall>p\<in>set (response_parts r). inlineData p = None)"
    using answer by (simp add: generateLifestyleImage_def first_image_none)
next
  assume "response_parts r = before @ p # after \<and> (\<forall>q\<in>set before. inlineData q = None) \<and>
      inlineData p = Some d"
  then show "generateLifestyleImage ai img a =
      Inr (''data:image/png;base64,'' @ template (data d))"
    using answer by (simp add: generateLifestyleImage_def first_image_some)
next
  assume h: "(\<forall>p\<in>set (response_parts r). inlineData p = None) \<and>
      originalImage s = Some img \<and> img \<noteq> [] \<and> analysis s = Some a"
  then have f: "generateLifestyleImage ai img a = Inl (Error ''No image generated'')"
    using answer by (simp add: generateLifestyleImage_def first_image_none)
  from h f show "assets (onGenerateImage (generateLifestyleImage ai) s) = assets s"
    by (simp add: onGenerateImage_def showToast_def)
  from h f show "toastMessage (onGenerateImage (generateLifestyleImage ai) s) =
      Some ''Failed to generate image.''"
    by (simp add: onGenerateImage_def showToast_def)
qed

theorem generateLifestyleImage_no_image_witness:
  "generateLifestyleImage (content_provider (Inr (text_response ''No photo today.'')))
     example_image example_analysis = Inl (Error ''No image generated'') \<and>
   generateLifestyleImage (content_provider (Inr image_response))
     example_image example_analysis = Inr ''data:image/png;base64,QUJD'' \<and>
   lifestyleImage (assets (onGenerateImage
     (generateLifestyleImage (content_provider (Inr (text_response ''No photo today.''))))
     analysed_state)) = None \<and>
   toastMessage (onGenerateImage
     (generateLifestyleImage (content_provider (Inr (text_response ''No photo today.''))))
     analysed_state) = Some ''Failed to generate image.''"
proof -
  let ?r = "text_response ''No photo today.''"
  let ?ai = "content_provider (Inr ?r)"
  let ?aj = "content_provider (Inr image_response)"
  let ?d = "\<lparr>mimeType = Some ''image/png'', data = Some ''QUJD''\<rparr>"
  let ?p = "\<lparr>inlineData = Some ?d, part_text = None\<rparr>"
  have a1: "generateContent ?ai (lifestyle_request example_image example_analysis) = Inr ?r"
    by (simp add: content_provider_def)
  have a2: "generateContent ?aj (lifestyle_request example_image example_analysis)
      = Inr image_response"
    by (simp add: content_provider_def)
  have none: "\<forall>p\<in>set (response_parts ?r). inlineData p = None"
    by (simp add: response_parts_def text_response_def text_part_def)
  have st: "originalImage analysed_state = Some example_image \<and> example_image \<noteq> [] \<and>
      analysis analysed_state = Some example_analysis"
    by (simp add: analysed_state_def example_image_def)
  have split: "response_parts image_response =
      [text_part ''Here is your photo.''] @ ?p #
      [\<lparr>inlineData = Some \<lparr>mimeType = Some ''image/png'', data = Some ''REVG''\<rparr>,
        part_text = None\<rparr>] \<and>
      (\<forall>q\<in>set [text_part ''Here is your photo.'']. inlineData q = None) \<and>
      inlineData ?p = Some ?d"
    by (simp add: response_parts_def image_response_def text_part_def)
  from generateLifestyleImage_no_image [OF a1, of _ _ _ _ analysed_state] none st
  have w1: "generateLifestyleImage ?ai example_image example_analysis
        = Inl (Error ''No image generated'')"
    and w3: "assets (onGenerateImage (generateLifestyleImage ?ai) analysed_state)
        = assets analysed_state"
    and w4: "toastMessage (onGenerateImage (generateLifestyleImage ?ai) analysed_state)
        = Some ''Failed to generate image.''"
    by blast+
  from generateLifestyleImage_no_image [OF a2] split
  have w2: "generateLifestyleImage ?aj example_image example_analysis
      = Inr (''data:image/png;base64,'' @ template (data ?d))"
    by blast
  from w1 w2 w3 w4 show ?thesis
    by (simp add: analysed_state_def initial_state_def no_assets_def)
qed

section \<open>Properties of the analysis client\<close>


lemma JSON_parse_empty_array: "JSON_parse ''[]'' = Inr (JArray [])"
  by code_simp

lemma JSON_parse_error: "JSON_parse t = Inl e \<Longrightarrow> e = SyntaxError"
  by (auto simp: JSON_parse_def split: option.splits)




section \<open>Properties of the script writer and the B-roll ideator\<close>

text \<open>
  C5, as stated, fails. A response whose text is not JSON makes \<open>ideateBRoll\<close> throw the
  SyntaxError of \<open>JSON.parse\<close>; a response without text makes it return the empty list,
  which has no fixed size; and the default of \<open>writeViralScript\<close> is not empty but the text
  "Failed to generate script.".
\<close>

theorem script_and_broll_defaults_counterexample:
  "ideateBRoll (content_provider (Inr (text_response ''Sorry, I cannot help.''))) example_analysis
     = Inl SyntaxError \<and>
   ideateBRoll (content_provider (Inr empty_response)) example_analysis = Inr (JArray []) \<and>
   writeViralScript (content_provider (Inr empty_response)) example_analysis
     = Inr ''Failed to generate script.''"
proof -
  have "JSON_parse ''Sorry, I cannot help.'' = Inl SyntaxError"
    by code_simp
  then show ?thesis
    by (simp add: ideateBRoll_def writeViralScript_def content_provider_def empty_response_def
        text_response_def JSON_parse_empty_array)
qed

text \<open>
  C5, amended. For every response of the provider, \<open>writeViralScript\<close> returns a text and
  never throws: the text of the response when it is not empty, the text "Failed to
  generate script." otherwise. \<open>ideateBRoll\<close> returns what \<open>JSON.parse\<close> gives for the text
  of the response, whatever its shape and length; the empty list when the text is absent
  or empty; and it throws the SyntaxError of \<open>JSON.parse\<close>, and nothing else, when the text
  is not JSON.
\<close>

theorem script_and_broll_results:
  "(generateContent ai (script_request a) = Inr r \<and> response_text r = Some t \<and> t \<noteq> [] \<longrightarrow>
      writeViralScript ai a = Inr t) \<and>
   (generateContent ai (script_request a) = Inr r \<and>
    (response_text r = None \<or> response_text r = Some []) \<longrightarrow>
      writeViralScript ai a = Inr ''Failed to generate script.'') \<and>
   (generateContent ai (broll_request a) = Inr r \<and> response_text r = Some t \<and> t \<noteq> [] \<longrightarrow>
      ideateBRoll ai a = JSON_parse t) \<and>
   (generateContent ai (broll_request a) = Inr r \<and>
    (response_text r = None \<or> response_text r = Some []) \<longrightarrow>
      ideateBRoll ai a = Inr (JArray [])) \<and>
   (generateContent ai (broll_request a) = Inr r \<and> ideateBRoll ai a = Inl e \<longrightarrow>
      e = SyntaxError)"
proof (intro conjI impI)
  assume "generateContent ai (script_request a) = Inr r \<and> response_text r = Some t \<and> t \<noteq> []"
  then show "writeViralScript ai a = Inr t"
    by (simp add: writeViralScript_def)
next
  assume "generateContent ai (script_request a) = Inr r \<and>
    (response_text r = None \<or> response_text r = Some [])"
  then show "writeViralScript ai a = Inr ''Failed to generate script.''"
    by (auto simp: writeViralScript_def)
next
  assume "generateContent ai (broll_request a) = Inr r \<and> response_text r = Some t \<and> t \<noteq> []"
  then show "ideateBRoll ai a = JSON_parse t"
    by (simp add: ideateBRoll_def)
next
  assume "generateContent ai (broll_request a) = Inr r \<and>
    (response_text r = None \<or> response_text r = Some [])"
  then show "ideateBRoll ai a = Inr (JArray [])"
    by (auto simp: ideateBRoll_def JSON_parse_empty_array)
next
  assume "generateContent ai (broll_request a) = Inr r \<and> ideateBRoll ai a = Inl e"
  then show "e = SyntaxError"
    by (auto simp: ideateBRoll_def dest: JSON_parse_error)
qed

theorem script_and_broll_results_witness:
  "writeViralScript (content_provider (Inr (text_response ''POV: your coffee stays hot.'')))
     example_analysis = Inr ''POV: your coffee stays hot.'' \<and>
   writeViralScript (content_provider (Inr (text_response ''''))) example_analysis
     = Inr ''Failed to generate script.'' \<and>
   ideateBRoll (content_provider (Inr (text_response ideas_text))) example_analysis
     = Inr (JArray [JString (units ''Macro shot of glaze''), JString (units ''Steam rising'')]) \<and>
   ideateBRoll (content_provider (Inr (text_response ''''))) example_analysis
     = Inr (JArray []) \<and>
   ideateBRoll (content_provider (Inr (text_response ''Here are three ideas:''))) example_analysis
     = Inl SyntaxError"
proof (intro conjI)
  let ?t = "''POV: your coffee stays hot.''"
  let ?r = "text_response ?t"
  let ?ai = "content_provider (Inr ?r)"
  have "generateContent ?ai (script_request example_analysis) = Inr ?r \<and>
      response_text ?r = Some ?t \<and> ?t \<noteq> []"
    by (simp add: content_provider_def text_response_def)
  with script_and_broll_results [of ?ai example_analysis ?r ?t]
  show "writeViralScript ?ai example_analysis = Inr ?t"
    by blast
next
  let ?r = "text_response ''''"
  let ?ai = "content_provider (Inr ?r)"
  have "generateContent ?ai (script_request example_analysis) = Inr ?r \<and>
      (response_text ?r = None \<or> response_text ?r = Some [])"
    by (simp add: content_provider_def text_response_def)
  with script_and_broll_results [of ?ai example_analysis ?r]
  show "writeViralScript ?ai example_analysis = Inr ''Failed to generate script.''"
    by blast
next
  let ?r = "text_response ideas_text"
  let ?ai = "content_provider (Inr ?r)"
  have "generateContent ?ai (broll_request example_analysis) = Inr ?r \<and>
      response_text ?r = Some ideas_text \<and> ideas_text \<noteq> []"
    by (simp add: content_provider_def text_response_def ideas_text_def)
  with script_and_broll_results [of ?ai example_analysis ?r ideas_text]
  have "ideateBRoll ?ai example_analysis = JSON_parse ideas_text"
    by blast
  also have "JSON_parse ideas_text =
      Inr (JArray [JString (units ''Macro shot of glaze''), JString (units ''Steam rising'')])"
    by code_simp
  finally show "ideateBRoll ?ai example_analysis =
      Inr (JArray [JString (units ''Macro shot of glaze''), JString (units ''Steam rising'')])" .
next
  let ?r = "text_response ''''"
  let ?ai = "content_provider (Inr ?r)"
  have "generateContent ?ai (broll_request example_analysis) = Inr ?r \<and>
      (response_text ?r = None \<or> response_text ?r = Some [])"
    by (simp add: content_provider_def text_response_def)
  with script_and_broll_results [of ?ai example_analysis ?r]
  show "ideateBRoll ?ai example_analysis = Inr (JArray [])"
    by blast
next
  let ?t = "''Here are three ideas:''"
  let ?r = "text_response ?t"
  let ?ai = "content_provider (Inr ?r)"
  have "generateContent ?ai (broll_request example_analysis) = Inr ?r \<and>
      response_text ?r = Some ?t \<and> ?t \<noteq> []"
    by (simp add: content_provider_def text_response_def)
  with script_and_broll_results [of ?ai example_analysis ?r ?t]
  have "ideateBRoll ?ai example_analysis = JSON_parse ?t"
    by blast
  also have "JSON_parse ?t = Inl SyntaxError"
    by code_simp
  finally show "ideateBRoll ?ai example_analysis = Inl SyntaxError" .
qed

section \<open>Properties of the application shell\<close>

text \<open>
  C2. When the analysis of an image succeeds, \<open>handleAnalysis\<close> stores its result as the
  current analysis and the credits become \<open>max 0 (credits - 1)\<close>; when it fails, the
  analysis and the credits are unchanged. Through the upload handler, which runs the
  analysis only while a credit is left, a successful analysis of the uploaded image
  stores the image and the result and takes exactly one credit.
\<close>

theorem handleAnalysis_credits:
  "(analyzeProductImage' img = Inr result \<longrightarrow>
      analysis (handleAnalysis analyzeProductImage' img s) = Some result \<and>
      credits (handleAnalysis analyzeProductImage' img s) = max 0 (credits s - 1)) \<and>
   (analyzeProductImage' img = Inl e \<longrightarrow>
      analysis (handleAnalysis analyzeProductImage' img s) = analysis s \<and>
      credits (handleAnalysis analyzeProductImage' img s) = credits s) \<and>
   (analyzeProductImage' img = Inr result \<and> 0 < credits s \<longrightarrow>
      originalImage (handleFileUpload analyzeProductImage' (Some img) s) = Some img \<and>
      analysis (handleFileUpload analyzeProductImage' (Some img) s) = Some result \<and>
      credits (handleFileUpload analyzeProductImage' (Some img) s) = credits s - 1)"
  by (simp add: handleAnalysis_def handleFileUpload_def showToast_def)

theorem handleAnalysis_credits_witness:
  "analysis (handleAnalysis (\<lambda>img. Inr example_analysis) example_image initial_state)
     = Some example_analysis \<and>
   credits (handleAnalysis (\<lambda>img. Inr example_analysis) example_image initial_state) = 2 \<and>
   credits (handleAnalysis (\<lambda>img. Inr example_analysis) example_image
     (initial_state\<lparr>credits := 0\<rparr>)) = 0 \<and>
   analysis (handleAnalysis (\<lambda>img. Inl SyntaxError) example_image initial_state) = None \<and>
   credits (handleAnalysis (\<lambda>img. Inl SyntaxError) example_image initial_state) = 3 \<and>
   credits (handleFileUpload (\<lambda>img. Inr example_analysis) (Some example_image) initial_state)
     = 2"
  using
    handleAnalysis_credits [of "\<lambda>img. Inr example_analysis" example_image example_analysis
      initial_state SyntaxError]
    handleAnalysis_credits [of "\<lambda>img. Inr example_analysis" example_image example_analysis
      "initial_state\<lparr>credits := 0\<rparr>" SyntaxError]
    handleAnalysis_credits [of "\<lambda>img. Inl SyntaxError" example_image example_analysis
      initial_state SyntaxError]
  by (simp add: initial_state_def)

lemma onGenerateVideo_assets:
  assumes "onGenerateVideo aistudio f s = Some (s', log)"
  shows "assets s' = assets s \<or>
    (\<exists>img a result. originalImage s = Some img \<and> analysis s = Some a \<and>
       f img a = Some (Inr result, log) \<and>
       assets s' = (assets s)\<lparr>productVideoUrl := Some result\<rparr>)"
  using assms
  by (auto simp: onGenerateVideo_def showToast_def Let_def
      split: option.splits sum.splits bool.splits if_splits prod.splits)

text \<open>
  C3. Each of the four generating handlers writes its own slot of the assets only.
  Whatever its service does, the script handler leaves the photo, the B-roll ideas, the
  video and the original image as they were, and likewise the B-roll, the photo and the
  video handler for the slots that are not theirs. When its service succeeds (and its
  preconditions hold), the handler stores the result in its own slot. When its service
  fails, every slot is as it was: a failed video leaves the photo and the script in
  place.
\<close>

theorem asset_slots_independent:
  "(lifestyleImage (assets (onWriteScript script s)) = lifestyleImage (assets s) \<and>
    bRollConcepts (assets (onWriteScript script s)) = bRollConcepts (assets s) \<and>
    productVideoUrl (assets (onWriteScript script s)) = productVideoUrl (assets s) \<and>
    assets_originalImage (assets (onWriteScript script s)) = assets_originalImage (assets s)) \<and>
   (lifestyleImage (assets (onIdeateBRoll broll s)) = lifestyleImage (assets s) \<and>
    tiktokScript (assets (onIdeateBRoll broll s)) = tiktokScript (assets s) \<and>
    productVideoUrl (assets (onIdeateBRoll broll s)) = productVideoUrl (assets s) \<and>
    assets_originalImage (assets (onIdeateBRoll broll s)) = assets_originalImage (assets s)) \<and>
   (tiktokScript (assets (onGenerateImage photo s)) = tiktokScript (assets s) \<and>
    bRollConcepts (assets (onGenerateImage photo s)) = bRollConcepts (assets s) \<and>
    productVideoUrl (assets (onGenerateImage photo s)) = productVideoUrl (assets s) \<and>
    assets_originalImage (assets (onGenerateImage photo s)) = assets_originalImage (assets s)) \<and>
   (onGenerateVideo aistudio film s = Some (s', log) \<longrightarrow>
      lifestyleImage (assets s') = lifestyleImage (assets s) \<and>
      tiktokScript (assets s') = tiktokScript (assets s) \<and>
      bRollConcepts (assets s') = bRollConcepts (assets s) \<and>
      assets_originalImage (assets s') = assets_originalImage (assets s)) \<and>
   (analysis s = Some a \<and> script a = Inr text1 \<longrightarrow>
      tiktokScript (assets (onWriteScript script s)) = Some text1) \<and>
   (analysis s = Some a \<and> broll a = Inr ideas \<longrightarrow>
      bRollConcepts (assets (onIdeateBRoll broll s)) = Some ideas) \<and>
   (originalImage s = Some img \<and> img \<noteq> [] \<and> analysis s = Some a \<and> photo img a = Inr url \<longrightarrow>
      lifestyleImage (assets (onGenerateImage photo s)) = Some url) \<and>
   (originalImage s = Some img \<and> img \<noteq> [] \<and> analysis s = Some a \<and>
    film img a = Some (Inr url, log) \<longrightarrow>
      (\<exists>s''. onGenerateVideo (Some (Inr True)) film s = Some (s'', log) \<and>
         productVideoUrl (assets s'') = Some url)) \<and>
   (analysis s = Some a \<and> script a = Inl e \<longrightarrow> assets (onWriteScript script s) = assets s) \<and>
   (analysis s = Some a \<and> broll a = Inl e \<longrightarrow> assets (onIdeateBRoll broll s) = assets s) \<and>
   (originalImage s = Some img \<and> analysis s = Some a \<and> photo img a = Inl e \<longrightarrow>
      assets (onGenerateImage photo s) = assets s) \<and>
   (originalImage s = Some img \<and> analysis s = Some a \<and> film img a = Some (Inl e, log) \<and>
    onGenerateVideo aistudio film s = Some (s', log') \<longrightarrow> assets s' = assets s)"
proof (intro conjI impI)
  assume "onGenerateVideo aistudio film s = Some (s', log)"
  from onGenerateVideo_assets [OF this]
  show "lifestyleImage (assets s') = lifestyleImage (assets s)"
    and "tiktokScript (assets s') = tiktokScript (assets s)"
    and "bRollConcepts (assets s') = bRollConcepts (assets s)"
    and "assets_originalImage (assets s') = assets_originalImage (assets s)"
    by auto
next
  assume "originalImage s = Some img \<and> analysis s = Some a \<and> film img a = Some (Inl e, log) \<and>
    onGenerateVideo aistudio film s = Some (s', log')"
  then show "assets s' = assets s"
    using onGenerateVideo_assets [of aistudio film s s' log'] by auto
next
  assume "originalImage s = Some img \<and> img \<noteq> [] \<and> analysis s = Some a \<and>
    film img a = Some (Inr url, log)"
  then show "\<exists>s''. onGenerateVideo (Some (Inr True)) film s = Some (s'', log) \<and>
         productVideoUrl (assets s'') = Some url"
    by (simp add: onGenerateVideo_def showToast_def Let_def)
qed (auto simp: onWriteScript_def onIdeateBRoll_def onGenerateImage_def showToast_def Let_def
    split: option.splits sum.splits)

theorem asset_slots_independent_witness:
  "lifestyleImage (assets (onIdeateBRoll (\<lambda>a. Inr [''Macro shot of glaze'', ''Steam rising''])
       campaign_state)) = Some ''data:image/png;base64,QUJD'' \<and>
   tiktokScript (assets (onIdeateBRoll (\<lambda>a. Inr [''Macro shot of glaze'', ''Steam rising''])
       campaign_state)) = Some ''POV: your coffee stays hot.'' \<and>
   bRollConcepts (assets (onIdeateBRoll (\<lambda>a. Inr [''Macro shot of glaze'', ''Steam rising''])
       campaign_state)) = Some [''Macro shot of glaze'', ''Steam rising''] \<and>
   tiktokScript (assets (onGenerateImage
       (generateLifestyleImage (content_provider (Inr image_response))) campaign_state))
     = Some ''POV: your coffee stays hot.'' \<and>
   assets (onWriteScript (writeViralScript (content_provider (Inl (Error ''quota exceeded''))))
       campaign_state) = assets campaign_state \<and>
   map_option (\<lambda>r. assets (fst r))
     (onGenerateVideo (Some (Inr True))
        (generateProductVideo
           (example_provider (Inl (Error ''quota exceeded'')) (\<lambda>k. Inr pending_operation)
              (Inr (Inr ''mp4''))))
        campaign_state) = Some (assets campaign_state) \<and>
   map_option (\<lambda>r. assets (fst r))
     (onGenerateVideo (Some (Inr True)) (generateProductVideo (video_provider 0)) campaign_state)
     = Some ((assets campaign_state)\<lparr>productVideoUrl := Some ''blob:video''\<rparr>)"
proof (intro conjI)
  let ?broll = "\<lambda>a::ProductAnalysis. Inr [''Macro shot of glaze'', ''Steam rising'']
      :: js_error + string list"
  have st: "originalImage campaign_state = Some example_image \<and> example_image \<noteq> [] \<and>
      analysis campaign_state = Some example_analysis"
    by (simp add: campaign_state_def analysed_state_def example_image_def)
  have slots: "lifestyleImage (assets campaign_state) = Some ''data:image/png;base64,QUJD'' \<and>
      tiktokScript (assets campaign_state) = Some ''POV: your coffee stays hot.''"
    by (simp add: campaign_state_def no_assets_def)
  note broll = asset_slots_independent
    [where broll = ?broll and s = campaign_state and a = example_analysis
       and ideas = "[''Macro shot of glaze'', ''Steam rising'']"]
  from broll slots
  show "lifestyleImage (assets (onIdeateBRoll ?broll campaign_state))
      = Some ''data:image/png;base64,QUJD''"
    by simp
  from broll slots
  show "tiktokScript (assets (onIdeateBRoll ?broll campaign_state))
      = Some ''POV: your coffee stays hot.''"
    by simp
  from broll st
  show "bRollConcepts (assets (onIdeateBRoll ?broll campaign_state))
      = Some [''Macro shot of glaze'', ''Steam rising'']"
    by simp
  let ?photo = "generateLifestyleImage (content_provider (Inr image_response))"
  from asset_slots_independent [where photo = ?photo and s = campaign_state] slots
  show "tiktokScript (assets (onGenerateImage ?photo campaign_state))
      = Some ''POV: your coffee stays hot.''"
    by simp
  let ?script = "writeViralScript (content_provider (Inl (Error ''quota exceeded'')))"
  have "?script example_analysis = Inl (Error ''quota exceeded'')"
    by (simp add: writeViralScript_def content_provider_def)
  with asset_slots_independent
    [where script = ?script and s = campaign_state and a = example_analysis
       and e = "Error ''quota exceeded''"] st
  show "assets (onWriteScript ?script campaign_state) = assets campaign_state"
    by simp
  let ?film = "generateProductVideo
      (example_provider (Inl (Error ''quota exceeded'')) (\<lambda>k. Inr pending_operation)
         (Inr (Inr ''mp4'')))"
  let ?log = "[StatusUpdate ''Initializing Video Engine...'',
      GenerateVideosCall (video_request example_image example_analysis)]"
  have film: "?film example_image example_analysis = Some (Inl (Error ''quota exceeded''), ?log)"
    by (simp add: generateProductVideo_def example_provider_def)
  then obtain s' where run: "onGenerateVideo (Some (Inr True)) ?film campaign_state
      = Some (s', ?log)"
    using st by (simp add: onGenerateVideo_def Let_def)
  from asset_slots_independent
    [where film = ?film and s = campaign_state and a = example_analysis
       and img = example_image and e = "Error ''quota exceeded''" and log = ?log
       and aistudio = "Some (Inr True)" and s' = s' and log' = ?log] st film run
  have "assets s' = assets campaign_state"
    by simp
  with run show "map_option (\<lambda>r. assets (fst r))
      (onGenerateVideo (Some (Inr True)) ?film campaign_state) = Some (assets campaign_state)"
    by simp
  let ?film2 = "generateProductVideo (video_provider 0)"
  let ?log2 = "[StatusUpdate ''Initializing Video Engine...'',
      GenerateVideosCall (video_request example_image example_analysis),
      FetchCall ''https://video.example/v1?alt=media&key=KEY'']"
  have "poll_loop (video_provider 0) finished_operation 0 ?log = Some (Inr finished_operation, ?log)"
    by (subst poll_loop.simps) (simp add: finished_operation_def)
  then have film2: "?film2 example_image example_analysis = Some (Inr ''blob:video'', ?log2)"
    by (simp add: generateProductVideo_def video_provider_def download_def downloadLink_def
        finished_operation_def)
  with asset_slots_independent
    [where film = ?film2 and s = campaign_state and a = example_analysis
       and img = example_image and url = "''blob:video''" and log = ?log2] st
  obtain s'' where run2: "onGenerateVideo (Some (Inr True)) ?film2 campaign_state
      = Some (s'', ?log2)" and url: "productVideoUrl (assets s'') = Some ''blob:video''"
    by blast
  from asset_slots_independent
    [where film = ?film2 and s = campaign_state and aistudio = "Some (Inr True)"
       and s' = s'' and log = ?log2] run2
  have "lifestyleImage (assets s'') = lifestyleImage (assets campaign_state) \<and>
      tiktokScript (assets s'') = tiktokScript (assets campaign_state) \<and>
      bRollConcepts (assets s'') = bRollConcepts (assets campaign_state) \<and>
      assets_originalImage (assets s'') = assets_originalImage (assets campaign_state)"
    by simp
  with url have "assets s'' = (assets campaign_state)\<lparr>productVideoUrl := Some ''blob:video''\<rparr>"
    by (cases "assets s''"; cases "assets campaign_state") simp
  with run2 show "map_option (\<lambda>r. assets (fst r))
      (onGenerateVideo (Some (Inr True)) ?film2 campaign_state)
      = Some ((assets campaign_state)\<lparr>productVideoUrl := Some ''blob:video''\<rparr>)"
    by simp
qed

text \<open>
  C7, as stated, fails for the credits: after one analysed upload and a new campaign the
  counter is 2, not its initial value 3.
\<close>

theorem newCampaign_credits_counterexample:
  "map_option credits
     (run [FileUpload (\<lambda>img. Inr example_analysis) (Some example_image), NewCampaign]
        initial_state) = Some 2 \<and>
   credits initial_state = 3"
  by (simp add: handleFileUpload_def handleAnalysis_def showToast_def newCampaign_def
      initial_state_def)

text \<open>
  C7, amended. The handler of "New Campaign" resets the uploaded image, the analysis and
  every slot of the assets to null, their initial values. It leaves the credits, the
  loading flags, the toast, the video status and the upgrade prompt as they are: the
  credits spent carry over from one campaign to the next.
\<close>

theorem newCampaign_resets:
  "originalImage (newCampaign s) = None \<and>
   analysis (newCampaign s) = None \<and>
   assets (newCampaign s) = no_assets \<and>
   originalImage (newCampaign s) = originalImage initial_state \<and>
   analysis (newCampaign s) = analysis initial_state \<and>
   assets (newCampaign s) = assets initial_state \<and>
   credits (newCampaign s) = credits s \<and>
   loading (newCampaign s) = loading s \<and>
   toastMessage (newCampaign s) = toastMessage s \<and>
   videoStatus (newCampaign s) = videoStatus s \<and>
   showUpgradeModal (newCampaign s) = showUpgradeModal s"
  by (simp add: newCampaign_def no_assets_def initial_state_def)

text \<open>
  C8. When the page has no \<open>aistudio\<close> object, or its check reports that no key is
  selected, the video handler opens the upgrade prompt and does nothing else: whatever
  the orchestrator would do, it is not run (no event of it occurs, and the handler
  returns even for an orchestrator that never would), and the flag \<open>generatingVideo\<close> is
  as it was.
\<close>

theorem onGenerateVideo_without_key:
  "aistudio = None \<or> aistudio = Some (Inr False) \<longrightarrow>
     onGenerateVideo aistudio film s = Some (s\<lparr>showUpgradeModal := True\<rparr>, []) \<and>
     generatingVideo (loading (s\<lparr>showUpgradeModal := True\<rparr>)) = generatingVideo (loading s)"
  by (auto simp: onGenerateVideo_def)

theorem onGenerateVideo_without_key_witness:
  "onGenerateVideo (Some (Inr False)) (generateProductVideo stuck_provider) analysed_state
     = Some (analysed_state\<lparr>showUpgradeModal := True\<rparr>, []) \<and>
   onGenerateVideo None (generateProductVideo (video_provider 0)) analysed_state
     = Some (analysed_state\<lparr>showUpgradeModal := True\<rparr>, []) \<and>
   generatingVideo (loading (analysed_state\<lparr>showUpgradeModal := True\<rparr>)) = False"
  using
    onGenerateVideo_without_key
      [of "Some (Inr False)" "generateProductVideo stuck_provider" analysed_state]
    onGenerateVideo_without_key
      [of None "generateProductVideo (video_provider 0)" analysed_state]
  by (simp add: analysed_state_def initial_state_def)

lemma handleAnalysis_credits_step:
  "credits (handleAnalysis f img s) = credits s \<or>
   credits (handleAnalysis f img s) = max 0 (credits s - 1)"
  by (simp add: handleAnalysis_def showToast_def Let_def split: sum.splits)

lemma onGenerateVideo_credits:
  "onGenerateVideo aistudio f s = Some (s', log) \<Longrightarrow> credits s' = credits s"
  by (auto simp: onGenerateVideo_def showToast_def Let_def
      split: option.splits sum.splits bool.splits if_splits prod.splits)

lemma handleFileUpload_credits_step:
  "credits (handleFileUpload f chosen s) = credits s \<or>
   credits (handleFileUpload f chosen s) = max 0 (credits s - 1)"
proof (cases chosen)
  case None
  then show ?thesis by (simp add: handleFileUpload_def)
next
  case (Some base64)
  with handleAnalysis_credits_step [of f base64 "s\<lparr>originalImage := Some base64\<rparr>"]
  show ?thesis by (auto simp: handleFileUpload_def max_def)
qed

lemma handleSampleLoad_credits_step:
  "credits (handleSampleLoad f sample s) = credits s \<or>
   credits (handleSampleLoad f sample s) = max 0 (credits s - 1)"
proof (cases sample)
  case (Inl e)
  then show ?thesis by (simp add: handleSampleLoad_def showToast_def Let_def)
next
  case (Inr base64)
  with handleAnalysis_credits_step [of f base64
      "s\<lparr>loading := (loading s)\<lparr>analyzing := True\<rparr>, originalImage := Some base64\<rparr>"]
  show ?thesis by (auto simp: handleSampleLoad_def Let_def max_def)
qed

lemma step_credits:
  assumes "step a s = Some s'"
  shows "credits s' = credits s \<or> credits s' = max 0 (credits s - 1) \<or> credits s' = 99"
proof (cases a)
  case (FileUpload f chosen)
  with assms handleFileUpload_credits_step [of f chosen s] show ?thesis by auto
next
  case (SampleLoad f sample)
  with assms handleSampleLoad_credits_step [of f sample s] show ?thesis by auto
next
  case (GenerateVideo aistudio f)
  with assms obtain log where "onGenerateVideo aistudio f s = Some (s', log)"
    by auto
  from onGenerateVideo_credits [OF this] show ?thesis by simp
next
  case (Upgrade aistudio)
  with assms show ?thesis
    by (auto simp: handleUpgrade_def showToast_def split: option.splits sum.splits)
next
  case (GenerateImage f)
  with assms show ?thesis
    by (auto simp: onGenerateImage_def showToast_def Let_def
        split: option.splits sum.splits if_splits)
next
  case (WriteScript f)
  with assms show ?thesis
    by (auto simp: onWriteScript_def showToast_def Let_def split: option.splits sum.splits)
next
  case (IdeateBRoll f)
  with assms show ?thesis
    by (auto simp: onIdeateBRoll_def showToast_def Let_def split: option.splits sum.splits)
next
  case (CopyToClipboard t)
  with assms show ?thesis by (auto simp: copyToClipboard_def showToast_def)
next
  case NewCampaign
  with assms show ?thesis by (auto simp: newCampaign_def)
qed (use assms in auto)

lemma run_credits: "run as s = Some s' \<Longrightarrow> 0 \<le> credits s \<Longrightarrow> 0 \<le> credits s'"
proof (induction as arbitrary: s)
  case Nil
  then show ?case by simp
next
  case (Cons a as)
  from Cons.prems(1) obtain s1 where s1: "step a s = Some s1" and r: "run as s1 = Some s'"
    by (auto split: option.splits)
  from step_credits [OF s1] Cons.prems(2) have "0 \<le> credits s1" by auto
  from Cons.IH [OF r this] show ?case .
qed

text \<open>
  C10. The credits start at 3. An action of the shell leaves them as they are, or makes
  them \<open>max 0 (credits - 1)\<close> (a successful analysis does), or sets them to 99 (the
  upgrade does). So after every run of actions from the initial state the credits are
  not negative.
\<close>

theorem credits_never_negative:
  "credits initial_state = 3 \<and>
   (step a s = Some s' \<longrightarrow>
      credits s' = credits s \<or> credits s' = max 0 (credits s - 1) \<or> credits s' = 99) \<and>
   (analyzeProductImage' img = Inr result \<longrightarrow>
      credits (handleAnalysis analyzeProductImage' img s) = max 0 (credits s - 1)) \<and>
   credits (handleUpgrade (Some (Inr ())) s) = 99 \<and>
   (run as initial_state = Some final \<longrightarrow> 0 \<le> credits final)"
proof (intro conjI impI)
  show "credits initial_state = 3" by (simp add: initial_state_def)
next
  assume "step a s = Some s'"
  then show "credits s' = credits s \<or> credits s' = max 0 (credits s - 1) \<or> credits s' = 99"
    by (rule step_credits)
next
  assume "analyzeProductImage' img = Inr result"
  then show "credits (handleAnalysis analyzeProductImage' img s) = max 0 (credits s - 1)"
    by (simp add: handleAnalysis_def showToast_def)
next
  show "credits (handleUpgrade (Some (Inr ())) s) = 99"
    by (simp add: handleUpgrade_def showToast_def)
next
  assume "run as initial_state = Some final"
  then show "0 \<le> credits final"
    by (rule run_credits) (simp add: initial_state_def)
qed

theorem credits_never_negative_witness:
  "map_option credits (run spending initial_state) = Some 0 \<and>
   map_option credits (run session initial_state) = Some 98 \<and>
   (\<exists>final. run session initial_state = Some final \<and> 0 \<le> credits final)"
proof -
  have r0: "map_option credits (run spending initial_state) = Some 0"
    by (simp add: spending_def upload_def handleFileUpload_def handleAnalysis_def
        showToast_def initial_state_def)
  have r1: "map_option credits (run session initial_state) = Some 98"
    by (simp add: session_def spending_def upload_def handleFileUpload_def handleAnalysis_def
        showToast_def handleUpgrade_def newCampaign_def initial_state_def)
  then obtain final where f: "run session initial_state = Some final"
    by auto
  from credits_never_negative [of _ _ _ _ _ _ session final] f
  have "0 \<le> credits final" by blast
  with r0 r1 f show ?thesis by blast
qed

end
